theory Spec2Isabelle
  imports Complex_Main "HOL-Library.Multiset"
begin

section \<open>Data model\<close>

text \<open>
  The JavaScript sources are embedded as HOL functions over records. An exception
  raised by the runtime or by the code (\<^verbatim>\<open>throw new Error\<close>) is a value of
  type \<open>error\<close>; a function that may raise returns \<open>error + 'a\<close>.
\<close>

datatype error = TypeError string | ReferenceError string | Error string

text \<open>
  Values that may stand where the card data stores a condition: a condition is written
  as a nested array in the card database, but nothing in \<^verbatim>\<open>evaluateCondition\<close>
  checks that, so the other values are part of its input type. Numbers are integers.
  \<open>JObj\<close> is an object that is not an array and has no property named
  \<^verbatim>\<open>includes\<close>, \<^verbatim>\<open>length\<close>, \<^verbatim>\<open>split\<close>, \<^verbatim>\<open>0\<close>, \<^verbatim>\<open>1\<close> or \<^verbatim>\<open>2\<close>, such
  as \<^verbatim>\<open>{}\<close>.
\<close>

datatype jsval =
  JUndefined | JNull | JBool bool | JNum int | JStr string | JArr "jsval list" | JObj

text \<open>An entry of \<^verbatim>\<open>effectsData.implemented_effects\<close>.\<close>

record effect =
  trigger_e :: string
  zone :: "string option"
  condition :: jsval
  mandatory :: bool
  is_act :: bool
  once_per_turn :: bool
  cost_energy :: "int option"
  function_index :: nat

text \<open>
  \<^verbatim>\<open>Card\<close> (core/Card.js). Only the fields read by the modelled functions are kept
  (\<open>id_c\<close> is \<^verbatim>\<open>id\<close>, \<open>power_c\<close> is \<^verbatim>\<open>power\<close>). \<open>None\<close> in \<open>grade\<close>,
  \<open>power_c\<close>, \<open>shield\<close> and \<open>trigger\<close> is JavaScript's \<^verbatim>\<open>null\<close>, as the deck
  loader leaves it for a card that has no such value; \<open>Some n\<close> is the number \<open>n\<close>.
  \<open>implemented_effects\<close> is \<^verbatim>\<open>effectsData.implemented_effects\<close>, the empty list for
  a card that has none.
\<close>

record card =
  uniqueId :: string
  id_c :: string
  name :: string
  grade :: "int option"
  power_c :: "int option"
  critical :: int
  shield :: "int option"
  skills :: "string list"
  implemented_effects :: "effect list"
  trigger :: "string option"
  isResting :: bool
  bonusPower :: int
  bonusCritical :: int
  isPublic :: bool

text \<open>
  \<^verbatim>\<open>Board\<close> has six circles whose names and rows are fixed by the constructor; a board
  is the unit of each circle. \<^verbatim>\<open>frontRow\<close> and \<^verbatim>\<open>backRow\<close> are the getters.
\<close>

datatype cname = V | R1 | R2 | R3 | R4 | R5

type_synonym board = "cname \<Rightarrow> card option"

definition frontRow :: "cname list" where
  "frontRow = [R1, V, R2]"

definition backRow :: "cname list" where
  "backRow = [R3, R4, R5]"

fun circle_name :: "cname \<Rightarrow> string" where
  "circle_name V = ''V''"
| "circle_name R1 = ''R1''"
| "circle_name R2 = ''R2''"
| "circle_name R3 = ''R3''"
| "circle_name R4 = ''R4''"
| "circle_name R5 = ''R5''"

text \<open>
  \<^verbatim>\<open>Board.getCircle\<close>: the first of V, R1, ..., R5 with that name, and
  \<^verbatim>\<open>throw new Error\<close> when there is none.
\<close>

definition getCircle :: "string \<Rightarrow> error + cname" where
  "getCircle nm =
     (case find (\<lambda>c. circle_name c = nm) [V, R1, R2, R3, R4, R5] of
        None \<Rightarrow> Inl (Error ''Circle not found'')
      | Some c \<Rightarrow> Inr c)"

text \<open>The player state built by \<^verbatim>\<open>Party._createPlayerState\<close>.\<close>

record player =
  deck :: "card list"
  rideDeck :: "card list"
  board :: board
  hand :: "card list"
  dropZone :: "card list"
  damageZone :: "card list"
  soul :: "card list"
  gZone :: "card list"
  bindZone :: "card list"
  guardianZone :: "card list"
  triggerZone :: "card list"
  crestZone :: "card list"
  orderZone :: "card list"
  energy :: int
  maxEnergy :: int
  continuousEffects :: "string list"
  usedTurnlyEffects :: "nat list"

text \<open>
  A pending effect and an event of the queue. The \<^verbatim>\<open>eventPayload\<close> of a pending effect
  is the event it was collected for; the effect procedures read its \<^verbatim>\<open>target\<close> only,
  so the payload is the event's type and target.
\<close>

record payload =
  type_p :: string
  target_p :: "card list option"

record pending =
  cardName :: string
  cardId :: string
  effect :: effect
  eventPayload :: payload

record event =
  type_ev :: string
  target :: "card list option"
  pendingEffects :: "pending list option"

text \<open>
  \<^verbatim>\<open>Party\<close> always has two players and \<^verbatim>\<open>currentPlayerIndex\<close> is only ever
  assigned 0, 1 or \<^verbatim>\<open>1 - currentPlayerIndex\<close>: the index type has two values.
  \<^verbatim>\<open>currentBattle\<close> holds references to two circle objects of the boards; a reference
  to a circle is the player that owns the board and the circle's name.
\<close>

datatype pidx = P0 | P1

fun other :: "pidx \<Rightarrow> pidx" where
  "other P0 = P1"
| "other P1 = P0"

fun index_num :: "pidx \<Rightarrow> int" where
  "index_num P0 = 0"
| "index_num P1 = 1"

record battle =
  attackerCircle :: "pidx \<times> cname"
  targetCircle :: "pidx \<times> cname"
  attackerPower :: int

record party =
  players :: "pidx \<Rightarrow> player"
  turn :: int
  currentPlayerIndex :: pidx
  phase :: string
  currentBattle :: "battle option"
  eventQueue :: "event list"
  nextPhase :: "string option"

definition unit_at :: "party \<Rightarrow> pidx \<times> cname \<Rightarrow> card option" where
  "unit_at p r = board (players p (fst r)) (snd r)"

definition set_player :: "party \<Rightarrow> pidx \<Rightarrow> player \<Rightarrow> party" where
  "set_player p i pl = p\<lparr>players := (players p)(i := pl)\<rparr>"

definition set_unit :: "party \<Rightarrow> pidx \<times> cname \<Rightarrow> card option \<Rightarrow> party" where
  "set_unit p r u =
     set_player p (fst r) ((players p (fst r))\<lparr>board := (board (players p (fst r)))(snd r := u)\<rparr>)"

text \<open>\<^verbatim>\<open>null + n\<close> is \<^verbatim>\<open>n\<close>: \<^verbatim>\<open>null\<close> converts to 0 in arithmetic and in \<^verbatim>\<open><=\<close>.\<close>

fun num :: "int option \<Rightarrow> int" where
  "num None = 0"
| "num (Some n) = n"

section \<open>Condition evaluator (ConditionEvaluator.js)\<close>

fun truthy :: "jsval \<Rightarrow> bool" where
  "truthy JUndefined = False"
| "truthy JNull = False"
| "truthy (JBool b) = b"
| "truthy (JNum n) = (n \<noteq> 0)"
| "truthy (JStr s) = (s \<noteq> [])"
| "truthy (JArr xs) = True"
| "truthy JObj = True"

text \<open>\<^verbatim>\<open>String.prototype.includes\<close>: the needle occurs as a contiguous substring.\<close>

fun is_prefix :: "string \<Rightarrow> string \<Rightarrow> bool" where
  "is_prefix [] s = True"
| "is_prefix (c # cs) [] = False"
| "is_prefix (c # cs) (d # ds) = (c = d \<and> is_prefix cs ds)"

fun str_includes :: "string \<Rightarrow> string \<Rightarrow> bool" where
  "str_includes [] needle = (needle = [])"
| "str_includes (c # cs) needle = (is_prefix needle (c # cs) \<or> str_includes cs needle)"

text \<open>
  \<^verbatim>\<open>condition.includes(x)\<close> for a string \<open>x\<close>: an array has the method (an element
  strictly equal to \<open>x\<close>), a string has it (substring), a truthy number or boolean has no
  such property and the call raises TypeError, and so does an object without the method.
\<close>

fun js_includes :: "jsval \<Rightarrow> string \<Rightarrow> error + bool" where
  "js_includes (JArr xs) s = Inr (JStr s \<in> set xs)"
| "js_includes (JStr t) s = Inr (str_includes t s)"
| "js_includes v s = Inl (TypeError ''condition.includes is not a function'')"

text \<open>\<^verbatim>\<open>condition[i]\<close> and \<^verbatim>\<open>condition.length\<close> on a truthy value.\<close>

fun idx :: "jsval \<Rightarrow> nat \<Rightarrow> jsval" where
  "idx (JArr xs) i = (if i < length xs then xs ! i else JUndefined)"
| "idx (JStr t) i = (if i < length t then JStr [t ! i] else JUndefined)"
| "idx v i = JUndefined"

fun js_length :: "jsval \<Rightarrow> nat option" where
  "js_length (JArr xs) = Some (length xs)"
| "js_length (JStr t) = Some (length t)"
| "js_length v = None"

text \<open>\<^verbatim>\<open>path.split('.')\<close>.\<close>

fun split_dot :: "string \<Rightarrow> string list" where
  "split_dot [] = [] # []"
| "split_dot (c # cs) =
     (if c = CHR ''.'' then [] # split_dot cs
      else (case split_dot cs of [] \<Rightarrow> [c] # [] | w # ws \<Rightarrow> (c # w) # ws))"

text \<open>
  The values met while a path is followed in \<^verbatim>\<open>getContextValue\<close>: the context object
  \<^verbatim>\<open>{index, energy}\<close> (\<open>Base\<close>, with its two own properties), a value as the card
  data can hold one (\<open>Val\<close>), or another object of the host, such as a function or a
  prototype, reached by a property read (\<open>Ref\<close>, with an address that identifies it).
\<close>

datatype acc = Base int int | Val jsval | Ref nat

datatype relop = Ge | Le

text \<open>
  What the evaluator takes from the language rather than from the repository:

    \<^item> \<open>lookup h a part\<close> is \<^verbatim>\<open>a[part]\<close> wherever the property is not an own
      property of the context object: a property inherited from a prototype
      (\<^verbatim>\<open>constructor\<close>, \<^verbatim>\<open>toString\<close>, ...), a property of a number or a string, a
      property of a host object; the read may raise (an accessor such as \<^verbatim>\<open>caller\<close>
      of a function does);

    \<^item> \<open>compare h op a v\<close> is \<^verbatim>\<open>a >= v\<close> or \<^verbatim>\<open>a <= v\<close> where an operand is a
      string, an array or an object: the language converts through
      \<^verbatim>\<open>ToPrimitive\<close>, which may raise, and may compare strings.
\<close>

record host =
  lookup :: "acc \<Rightarrow> string \<Rightarrow> error + acc"
  compare :: "relop \<Rightarrow> acc \<Rightarrow> jsval \<Rightarrow> error + bool"

text \<open>
  \<^verbatim>\<open>acc && acc[part]\<close>, the step of the \<^verbatim>\<open>reduce\<close> in \<^verbatim>\<open>getContextValue\<close>: a
  falsy accumulator is kept, an own property of the context object is read from it, and
  any other property is read by the host. \<open>follow\<close> is the \<^verbatim>\<open>reduce\<close> over the rest
  of the path.
\<close>

fun step_path :: "host \<Rightarrow> acc \<Rightarrow> string \<Rightarrow> error + acc" where
  "step_path h (Base i e) part =
     (if part = ''index'' then Inr (Val (JNum i))
      else if part = ''energy'' then Inr (Val (JNum e))
      else lookup h (Base i e) part)"
| "step_path h (Val v) part = (if truthy v then lookup h (Val v) part else Inr (Val v))"
| "step_path h (Ref n) part = lookup h (Ref n) part"

fun follow :: "host \<Rightarrow> acc \<Rightarrow> string list \<Rightarrow> error + acc" where
  "follow h a [] = Inr a"
| "follow h a (part # restOfPath) =
     (case step_path h a part of
        Inl e \<Rightarrow> Inl e
      | Inr a' \<Rightarrow> follow h a' restOfPath)"

text \<open>
  \<^verbatim>\<open>getContextValue(path, party)\<close>. \<^verbatim>\<open>path.split\<close> exists on strings only; any other
  field raises TypeError. A path that is just \<^verbatim>\<open>player\<close> yields the context object.
\<close>

definition getContextValue :: "host \<Rightarrow> jsval \<Rightarrow> party \<Rightarrow> error + acc" where
  "getContextValue h path p =
     (case path of
        JStr s \<Rightarrow>
          (case split_dot s of
             [] \<Rightarrow> Inr (Val JUndefined)
           | context # restOfPath \<Rightarrow>
               if context = ''player''
               then follow h (Base (index_num (currentPlayerIndex p))
                                   (energy (players p (currentPlayerIndex p)))) restOfPath
               else Inr (Val JUndefined))
      | _ \<Rightarrow> Inl (TypeError ''path.split is not a function''))"

text \<open>
  The four comparison operators. \<^verbatim>\<open>===\<close> is equality of primitives; an array or an
  object is only identical to itself, and the field value is never the array or object
  written in the condition, nor is the context object or an object of the host a value of
  the card data. \<^verbatim>\<open>>=\<close> and \<^verbatim>\<open><=\<close> on operands that are numbers, booleans,
  \<^verbatim>\<open>null\<close> or \<^verbatim>\<open>undefined\<close> convert both to numbers (\<^verbatim>\<open>undefined\<close> to NaN, which
  compares false); every other pair of operands is compared by the host.
\<close>

fun strict_eq :: "jsval \<Rightarrow> jsval \<Rightarrow> bool" where
  "strict_eq (JArr xs) v = False"
| "strict_eq v (JArr ys) = False"
| "strict_eq JObj v = False"
| "strict_eq v JObj = False"
| "strict_eq v w = (v = w)"

definition identical :: "acc \<Rightarrow> jsval \<Rightarrow> bool" where
  "identical a v = (case a of Val w \<Rightarrow> strict_eq w v | _ \<Rightarrow> False)"

datatype number = NaN | Fin int

fun numeric :: "jsval \<Rightarrow> number option" where
  "numeric JUndefined = Some NaN"
| "numeric JNull = Some (Fin 0)"
| "numeric (JBool b) = Some (Fin (if b then 1 else 0))"
| "numeric (JNum n) = Some (Fin n)"
| "numeric v = None"

definition numbers :: "acc \<Rightarrow> jsval \<Rightarrow> (number \<times> number) option" where
  "numbers a b =
     (case a of
        Val w \<Rightarrow> (case (numeric w, numeric b) of (Some x, Some y) \<Rightarrow> Some (x, y) | _ \<Rightarrow> None)
      | _ \<Rightarrow> None)"

definition js_ge :: "host \<Rightarrow> acc \<Rightarrow> jsval \<Rightarrow> error + bool" where
  "js_ge h a b =
     (case numbers a b of
        Some (Fin x, Fin y) \<Rightarrow> Inr (x \<ge> y)
      | Some (x, y) \<Rightarrow> Inr False
      | None \<Rightarrow> compare h Ge a b)"

definition js_le :: "host \<Rightarrow> acc \<Rightarrow> jsval \<Rightarrow> error + bool" where
  "js_le h a b =
     (case numbers a b of
        Some (Fin x, Fin y) \<Rightarrow> Inr (x \<le> y)
      | Some (x, y) \<Rightarrow> Inr False
      | None \<Rightarrow> compare h Le a b)"

text \<open>
  The single comparison \<^verbatim>\<open>[field, operator, value]\<close>; the result carries the
  \<^verbatim>\<open>console.warn\<close> reports.
\<close>

definition evalLeaf ::
  "host \<Rightarrow> jsval \<Rightarrow> jsval \<Rightarrow> jsval \<Rightarrow> party \<Rightarrow> error + (bool \<times> string list)" where
  "evalLeaf h field operator val p =
     (case getContextValue h field p of
        Inl e \<Rightarrow> Inl e
      | Inr fieldValue \<Rightarrow>
          if operator = JStr ''==='' then Inr (identical fieldValue val, [])
          else if operator = JStr ''!=='' then Inr (\<not> identical fieldValue val, [])
          else if operator = JStr ''>='' then map_sum id (\<lambda>r. (r, [])) (js_ge h fieldValue val)
          else if operator = JStr ''<='' then map_sum id (\<lambda>r. (r, [])) (js_le h fieldValue val)
          else Inr (False, [''Unknown operator in condition'']))"

text \<open>The measure of the recursion: an element of an array, a character of a string.\<close>

fun weight :: "jsval \<Rightarrow> nat" where
  "weight (JArr xs) = Suc (sum_list (map weight xs))"
| "weight (JStr t) = length t"
| "weight v = 0"

text \<open>
  \<^verbatim>\<open>evaluateCondition(condition, party)\<close>. The composite branch evaluates both
  operands before it looks at the operator, and falls through to the leaf test when the
  operator is neither \<^verbatim>\<open>and\<close> nor \<^verbatim>\<open>or\<close>.
\<close>

function evaluateCondition ::
  "host \<Rightarrow> jsval \<Rightarrow> party \<Rightarrow> error + (bool \<times> string list)" where
  "evaluateCondition host c p =
     (if \<not> truthy c then Inr (True, [])
      else
        (case js_includes c ''and'' of
           Inl e \<Rightarrow> Inl e
         | Inr hasAnd \<Rightarrow>
            (case (if hasAnd then Inr True else js_includes c ''or'') of
               Inl e \<Rightarrow> Inl e
             | Inr composite \<Rightarrow>
                 (case (if composite
                        then (case evaluateCondition host (idx c 0) p of
                                Inl e \<Rightarrow> Inl e
                              | Inr (left, w1) \<Rightarrow>
                                  (case evaluateCondition host (idx c 2) p of
                                     Inl e \<Rightarrow> Inl e
                                   | Inr (right, w2) \<Rightarrow>
                                       if idx c 1 = JStr ''and'' then Inr (Some (left \<and> right), w1 @ w2)
                                       else if idx c 1 = JStr ''or'' then Inr (Some (left \<or> right), w1 @ w2)
                                       else Inr (None, w1 @ w2)))
                        else Inr (None, [])) of
                    Inl e \<Rightarrow> Inl e
                  | Inr (Some b, w) \<Rightarrow> Inr (b, w)
                  | Inr (None, w) \<Rightarrow>
                      if js_length c = Some 3
                      then (case evalLeaf host (idx c 0) (idx c 1) (idx c 2) p of
                              Inl e \<Rightarrow> Inl e
                            | Inr (b, w') \<Rightarrow> Inr (b, w @ w'))
                      else Inr (False, w @ [''Invalid condition format''])))))"
  by pat_completeness auto

lemma is_prefix_length: "is_prefix n t \<Longrightarrow> length n \<le> length t"
  by (induction n t rule: is_prefix.induct) auto

lemma str_includes_length: "str_includes t n \<Longrightarrow> length n \<le> length t"
  by (induction t) (auto dest: is_prefix_length)

lemma weight_elem: "x \<in> set xs \<Longrightarrow> weight x < Suc (sum_list (map weight xs))"
  by (induction xs) auto

lemma weight_idx:
  assumes "truthy c" and "js_includes c ''and'' = Inr True \<or> js_includes c ''or'' = Inr True"
  shows "weight (idx c i) < weight c"
proof (cases c)
  case (JArr xs)
  then show ?thesis by (simp add: weight_elem)
next
  case (JStr t)
  with assms have "str_includes t ''and'' \<or> str_includes t ''or''" by simp
  then have "2 \<le> length t" by (auto dest: str_includes_length)
  with JStr show ?thesis by auto
qed (use assms in auto)

termination evaluateCondition
proof (relation "measure (\<lambda>(host, c, p). weight c)")
  show "wf (measure (\<lambda>(host, c, p). weight c))" by simp
next
  fix host :: host and c p x2 x2a
  assume "\<not> \<not> truthy c" and "js_includes c ''and'' = Inr x2"
    and "(if x2 then Inr True else js_includes c ''or'') = Inr x2a" and "x2a"
  then have "truthy c" and "js_includes c ''and'' = Inr True \<or> js_includes c ''or'' = Inr True"
    by (auto split: if_splits)
  then show "((host, idx c 0, p), (host, c, p)) \<in> measure (\<lambda>(host, c, p). weight c)"
    by (simp add: weight_idx)
next
  fix host :: host and c p x2 x2a x2b x y
  assume "\<not> \<not> truthy c" and "js_includes c ''and'' = Inr x2"
    and "(if x2 then Inr True else js_includes c ''or'') = Inr x2a" and "x2a"
  then have "truthy c" and "js_includes c ''and'' = Inr True \<or> js_includes c ''or'' = Inr True"
    by (auto split: if_splits)
  then show "((host, idx c 2, p), (host, c, p)) \<in> measure (\<lambda>(host, c, p). weight c)"
    by (simp add: weight_idx)
qed


declare evaluateCondition.simps [simp del]

text \<open>The truth value of a condition where only that is used; a raise propagates.\<close>

definition holds :: "host \<Rightarrow> jsval \<Rightarrow> party \<Rightarrow> error + bool" where
  "holds host c p = (case evaluateCondition host c p of Inl e \<Rightarrow> Inl e | Inr (b, w) \<Rightarrow> Inr b)"

section \<open>Action generator (core/ActionManager.js)\<close>

text \<open>
  An action is an object with a \<^verbatim>\<open>type\<close> string and the fields of that type. The
  display strings (\<^verbatim>\<open>cardName\<close>, \<^verbatim>\<open>description\<close>) and the card copies inside an
  ATTACK action are not read by the applier and are left out. A field that the object
  does not carry is \<open>None\<close> (\<^verbatim>\<open>undefined\<close>). \<open>OTHER\<close> is any other type string.
\<close>

datatype action =
    MULLIGAN (cardIndicesToRedraw: "nat list")
  | RIDE (cardId_a: string) (source: string) (discardCardId: "string option")
  | PASS_RIDE_PHASE
  | CALL (cardIndexInHand: "int option") (cardInstanceId: string) (circleTag: string)
  | ACT (cardId_act: string) (effect_a: effect)
  | ACTIVATE_EFFECT (effectToActivate: pending)
  | MOVE (from_a: string) (to_a: string)
  | ATTACK (attacker_name: string) (target_name: string) (boost: bool)
  | GUARD (guard_id: string) (guard_shield: "int option")
  | INTERCEPT (intercept_id: string) (intercept_shield: "int option") (fromCircle: string)
  | PASS_EFFECT
  | PASS_MAIN_PHASE
  | PASS_BATTLE_PHASE
  | PASS_GUARD_STEP
  | PROCESS_EVENTS
  | PASS
  | OTHER string

text \<open>A \<^verbatim>\<open>for\<close> loop that pushes actions and leaves at the first exception.\<close>

fun for_each :: "('a \<Rightarrow> error + 'b list) \<Rightarrow> 'a list \<Rightarrow> error + 'b list" where
  "for_each f [] = Inr []"
| "for_each f (x # xs) =
     (case f x of
        Inl e \<Rightarrow> Inl e
      | Inr ys \<Rightarrow> (case for_each f xs of Inl e \<Rightarrow> Inl e | Inr zs \<Rightarrow> Inr (ys @ zs)))"

text \<open>The units of a list of circles, \<^verbatim>\<open>null\<close> entries dropped.\<close>

definition units_of :: "board \<Rightarrow> cname list \<Rightarrow> card list" where
  "units_of b cs = concat (map (\<lambda>c. case b c of None \<Rightarrow> [] | Some u \<Rightarrow> [u]) cs)"

definition getCallActions :: "party \<Rightarrow> player \<Rightarrow> action list" where
  "getCallActions gameState activePlayer =
     (case board activePlayer V of
        None \<Rightarrow> []
      | Some vanguard \<Rightarrow>
          (let vanguardGrade = grade vanguard;
               availableCircles = filter (\<lambda>c. circle_name c \<noteq> ''V'') frontRow @ backRow
           in concat (map (\<lambda>card.
                 if power_c card \<noteq> None \<and> num (grade card) \<le> num vanguardGrade
                 then map (\<lambda>circle. CALL None (uniqueId card) (circle_name circle)) availableCircles
                 else []) (hand activePlayer))))"

definition getMoveActions :: "party \<Rightarrow> player \<Rightarrow> action list" where
  "getMoveActions gameState activePlayer =
     concat (map (\<lambda>(frontCircle, backCircle).
        if board activePlayer frontCircle \<noteq> None \<or> board activePlayer backCircle \<noteq> None
        then [MOVE (if board activePlayer frontCircle \<noteq> None
                    then circle_name frontCircle else circle_name backCircle)
                   (if board activePlayer frontCircle \<noteq> None
                    then circle_name backCircle else circle_name frontCircle)]
        else []) [(R1, R3), (R2, R5)])"

definition getActActions ::
  "host \<Rightarrow> party \<Rightarrow> player \<Rightarrow> error + action list" where
  "getActActions host gameState activePlayer =
     for_each (\<lambda>card.
        for_each (\<lambda>eff.
           if is_act eff
           then (if once_per_turn eff \<and> function_index eff \<in> set (usedTurnlyEffects activePlayer)
                 then Inr []
                 else (case holds host (condition eff) gameState of
                         Inl e \<Rightarrow> Inl e
                       | Inr ok \<Rightarrow> if ok then Inr [ACT (id_c card) eff] else Inr []))
           else Inr []) (implemented_effects card))
       (units_of (board activePlayer) frontRow @ units_of (board activePlayer) backRow
          @ crestZone activePlayer)"

text \<open>
  \<^verbatim>\<open>getGuardActions\<close>: the hand cards of the defending player with
  \<^verbatim>\<open>typeof card.shield === 'number'\<close>, then the interceptors of the front row, then
  the pass.
\<close>

definition guardFromHand :: "card \<Rightarrow> action list" where
  "guardFromHand c = (if shield c \<noteq> None then [GUARD (uniqueId c) (shield c)] else [])"

definition is_interceptor :: "board \<Rightarrow> cname \<Rightarrow> bool" where
  "is_interceptor b c =
     (case b c of None \<Rightarrow> False | Some u \<Rightarrow> \<not> isResting u \<and> ''Intercept'' \<in> set (skills u))"

definition interceptFrom :: "board \<Rightarrow> cname \<Rightarrow> action list" where
  "interceptFrom b c =
     (case b c of
        None \<Rightarrow> []
      | Some u \<Rightarrow> [INTERCEPT (uniqueId u) (shield u) (circle_name c)])"

definition getGuardActions :: "party \<Rightarrow> action list" where
  "getGuardActions gameState =
     (let defendingPlayer = players gameState (other (currentPlayerIndex gameState));
          interceptors = filter (is_interceptor (board defendingPlayer)) frontRow
      in concat (map guardFromHand (hand defendingPlayer))
         @ concat (map (interceptFrom (board defendingPlayer)) interceptors)
         @ [PASS_GUARD_STEP])"

text \<open>
  \<^verbatim>\<open>getBattlePhaseActions\<close>. The booster circle of an attacker is looked up in the
  object literal \<^verbatim>\<open>{R1: 'R3', V: 'R4', R2: 'R5'}\<close>.
\<close>

fun backRowCircle :: "cname \<Rightarrow> cname option" where
  "backRowCircle R1 = Some R3"
| "backRowCircle V = Some R4"
| "backRowCircle R2 = Some R5"
| "backRowCircle c = None"

definition has_booster :: "board \<Rightarrow> cname \<Rightarrow> bool" where
  "has_booster b attacker =
     (case backRowCircle attacker of
        None \<Rightarrow> False
      | Some c \<Rightarrow> (case b c of
                     None \<Rightarrow> False
                   | Some u \<Rightarrow> \<not> isResting u \<and> ''Boost'' \<in> set (skills u)))"

definition getBattlePhaseActions :: "party \<Rightarrow> action list" where
  "getBattlePhaseActions gameState =
     (let activePlayer = players gameState (currentPlayerIndex gameState);
          opponentPlayer = players gameState (other (currentPlayerIndex gameState));
          potentialAttackers =
            filter (\<lambda>c. case board activePlayer c of None \<Rightarrow> False | Some u \<Rightarrow> \<not> isResting u) frontRow;
          potentialTargets = filter (\<lambda>c. board opponentPlayer c \<noteq> None) frontRow;
          createAttackAction = (\<lambda>attackerCircle shouldBoost.
            map (\<lambda>targetCircle. ATTACK (circle_name attackerCircle) (circle_name targetCircle) shouldBoost)
                potentialTargets)
      in (if potentialTargets \<noteq> []
          then concat (map (\<lambda>attackerCircle.
                 if has_booster (board activePlayer) attackerCircle
                 then createAttackAction attackerCircle True @ createAttackAction attackerCircle False
                 else createAttackAction attackerCircle False) potentialAttackers)
          else [])
         @ [PASS_BATTLE_PHASE])"

definition getMainPhaseActions :: "host \<Rightarrow> party \<Rightarrow> error + action list" where
  "getMainPhaseActions host gameState =
     (let activePlayer = players gameState (currentPlayerIndex gameState);
          callActions = getCallActions gameState activePlayer;
          moveActions = getMoveActions gameState activePlayer
      in case getActActions host gameState activePlayer of
           Inl e \<Rightarrow> Inl e
         | Inr actActions \<Rightarrow> Inr (callActions @ moveActions @ actActions @ [PASS_MAIN_PHASE]))"

text \<open>
  \<^verbatim>\<open>getMulliganActions\<close>: \<^verbatim>\<open>(i >> j) & 1\<close> works on 32-bit integers and takes
  the shift count modulo 32.
\<close>

definition getMulliganActions :: "party \<Rightarrow> player \<Rightarrow> action list" where
  "getMulliganActions gameState activePlayer =
     (let handSize = length (hand activePlayer)
      in map (\<lambda>i. MULLIGAN (filter (\<lambda>j. ((i mod 2 ^ 32) div 2 ^ (j mod 32)) mod 2 = 1) [0..<handSize]))
             [0..<2 ^ handSize])"

text \<open>
  \<^verbatim>\<open>getRideActions\<close>. Without a vanguard the current grade is -1. The actions from
  the hand are deduplicated by card id; the discard options for a ride from the ride
  deck are the values of a \<^verbatim>\<open>Map\<close> keyed by card name, which keeps the position of
  the first card of a name and the value of the last.
\<close>

fun map_set :: "('k \<times> 'v) list \<Rightarrow> 'k \<Rightarrow> 'v \<Rightarrow> ('k \<times> 'v) list" where
  "map_set [] k v = [(k, v)]"
| "map_set ((k', v') # kvs) k v = (if k' = k then (k, v) # kvs else (k', v') # map_set kvs k v)"

definition getRideActions :: "party \<Rightarrow> player \<Rightarrow> action list" where
  "getRideActions gameState activePlayer =
     (let currentVanguardGrade =
            (case board activePlayer V of None \<Rightarrow> Some (- 1) | Some v \<Rightarrow> grade v);
          rideable = filter (\<lambda>card. grade card = Some (num currentVanguardGrade + 1)
                                   \<or> grade card = currentVanguardGrade) (hand activePlayer);
          handActions = map (\<lambda>i. RIDE i ''hand'' None) (rev (remdups (rev (map id_c rideable))));
          discards = map snd (foldl (\<lambda>m card. map_set m (name card) card) [] (hand activePlayer))
      in handActions
         @ (case find (\<lambda>c. grade c = Some (num currentVanguardGrade + 1)) (rideDeck activePlayer) of
              None \<Rightarrow> []
            | Some rideDeckCardToRide \<Rightarrow>
                map (\<lambda>cardToDiscard. RIDE (id_c rideDeckCardToRide) ''rideDeck'' (Some (id_c cardToDiscard)))
                    discards)
         @ [PASS_RIDE_PHASE])"

text \<open>
  \<^verbatim>\<open>getEffectActions\<close>. When the head event has no pending list yet the function calls
  \<^verbatim>\<open>collectEffectsForEvent\<close>, which ActionManager.js neither defines nor imports: the
  call raises ReferenceError.
\<close>

definition getEffectActions :: "party \<Rightarrow> error + action list" where
  "getEffectActions gameState =
     (case eventQueue gameState of
        [] \<Rightarrow> Inr []
      | currentEvent # rest \<Rightarrow>
          (case pendingEffects currentEvent of
             None \<Rightarrow> Inl (ReferenceError ''collectEffectsForEvent is not defined'')
           | Some pend \<Rightarrow>
               Inr (map ACTIVATE_EFFECT (filter (\<lambda>q. \<not> mandatory (effect q)) pend) @ [PASS_EFFECT])))"

definition getPossibleActions :: "host \<Rightarrow> party \<Rightarrow> error + action list" where
  "getPossibleActions host gameState =
     (let currentPhase = phase gameState;
          activePlayer = players gameState (currentPlayerIndex gameState)
      in if currentPhase = ''mulligan'' then Inr (getMulliganActions gameState activePlayer)
         else if currentPhase = ''ride'' then Inr (getRideActions gameState activePlayer)
         else if currentPhase = ''main'' then getMainPhaseActions host gameState
         else if currentPhase = ''act'' then Inr []
         else if currentPhase = ''battle'' then Inr (getBattlePhaseActions gameState)
         else if currentPhase = ''guard'' then Inr (getGuardActions gameState)
         else if currentPhase = ''effect_resolution'' then getEffectActions gameState
         else Inr [PASS])"


section \<open>Party methods (core/Party.js)\<close>

text \<open>
  The top of a deck is the end of the array: \<^verbatim>\<open>pop\<close> takes the last element and
  \<^verbatim>\<open>push\<close> appends.
\<close>

text \<open>
  \<^verbatim>\<open>shuffleDeck\<close>: Fisher-Yates from the last index down to 1. \<open>rnd i\<close> stands for
  the value \<^verbatim>\<open>Math.floor(Math.random() * (i + 1))\<close> drawn at index \<open>i\<close>, which lies
  in \<open>0..i\<close>.
\<close>

fun fisher_yates :: "(nat \<Rightarrow> nat) \<Rightarrow> nat \<Rightarrow> 'a list \<Rightarrow> 'a list" where
  "fisher_yates rnd 0 xs = xs"
| "fisher_yates rnd (Suc i) xs =
     (let j = rnd (Suc i) mod (Suc i + 1)
      in fisher_yates rnd i (xs[Suc i := xs ! j, j := xs ! Suc i]))"

definition shuffleDeck :: "(nat \<Rightarrow> nat) \<Rightarrow> party \<Rightarrow> pidx \<Rightarrow> party" where
  "shuffleDeck rnd p playerIndex =
     (let pl = players p playerIndex
      in set_player p playerIndex (pl\<lparr>deck := fisher_yates rnd (length (deck pl) - 1) (deck pl)\<rparr>))"

fun draw_loop :: "nat \<Rightarrow> player \<Rightarrow> player" where
  "draw_loop 0 pl = pl"
| "draw_loop (Suc n) pl =
     draw_loop n (if deck pl \<noteq> []
                  then pl\<lparr>deck := butlast (deck pl), hand := hand pl @ [last (deck pl)]\<rparr>
                  else pl)"

definition draw :: "party \<Rightarrow> pidx \<Rightarrow> nat \<Rightarrow> party" where
  "draw p playerIndex n = set_player p playerIndex (draw_loop n (players p playerIndex))"

text \<open>
  The readline interface: \<open>rl k\<close> is the result of \<^verbatim>\<open>parseInt(answer, 10)\<close> on the
  answer to the \<open>k\<close>-th question (\<open>None\<close> is NaN). The functions that ask carry the
  number of questions asked so far. Where the interface is absent (\<^verbatim>\<open>null\<close>),
  \<^verbatim>\<open>rl.question\<close> raises TypeError.
\<close>

type_synonym readline = "nat \<Rightarrow> int option"

definition truthy_str :: "string option \<Rightarrow> bool" where
  "truthy_str t = (case t of None \<Rightarrow> False | Some s \<Rightarrow> s \<noteq> [])"

definition add_power :: "int \<Rightarrow> card \<Rightarrow> card" where
  "add_power n u = u\<lparr>bonusPower := bonusPower u + n\<rparr>"

definition add_critical :: "int \<Rightarrow> card \<Rightarrow> card" where
  "add_critical n u = u\<lparr>bonusCritical := bonusCritical u + n\<rparr>"

text \<open>
  \<^verbatim>\<open>boardUnits[choice]\<close>: the circles that hold a unit, front row first; a choice that
  is NaN, negative or beyond the list selects nothing.
\<close>

definition boardUnits :: "board \<Rightarrow> cname list" where
  "boardUnits b = filter (\<lambda>c. b c \<noteq> None) (frontRow @ backRow)"

definition chosen :: "cname list \<Rightarrow> int option \<Rightarrow> cname option" where
  "chosen cs answer =
     (case answer of
        None \<Rightarrow> None
      | Some i \<Rightarrow> if 0 \<le> i \<and> nat i < length cs then Some (cs ! nat i) else None)"

definition boost_choice :: "(card \<Rightarrow> card) \<Rightarrow> cname option \<Rightarrow> player \<Rightarrow> player" where
  "boost_choice f choice pl =
     (case choice of
        None \<Rightarrow> pl
      | Some c \<Rightarrow> pl\<lparr>board := (board pl)(c := map_option f (board pl c))\<rparr>)"

definition applyTriggerEffect ::
  "string \<Rightarrow> pidx \<Rightarrow> readline option \<Rightarrow> party \<times> nat \<Rightarrow> error + party \<times> nat" where
  "applyTriggerEffect triggerType playerIndex rl st =
     (let p = fst st; asked = snd st;
          pl = players p playerIndex;
          opponent = players p (other playerIndex);
          units = boardUnits (board pl)
      in if triggerType = ''Front''
         then Inr (set_player p playerIndex
                     (pl\<lparr>board := (\<lambda>c. if c \<in> set frontRow then map_option (add_power 10000) (board pl c)
                                        else board pl c)\<rparr>), asked)
         else (case rl of
                 None \<Rightarrow> Inl (TypeError ''Cannot read properties of null (reading question)'')
               | Some ask \<Rightarrow>
                  (let pl1 = boost_choice (add_power 10000) (chosen units (ask asked)) pl;
                       p1 = set_player p playerIndex pl1;
                       asked1 = Suc asked
                   in if triggerType = ''Critical''
                      then Inr (set_player p1 playerIndex
                                  (boost_choice (add_critical 1) (chosen units (ask asked1)) pl1),
                                Suc asked1)
                      else if triggerType = ''Draw''
                      then Inr (draw p1 playerIndex 1, asked1)
                      else if triggerType = ''Heal''
                      then (if length (damageZone pl1) \<ge> length (damageZone opponent)
                               \<and> length (damageZone pl1) > 0
                            then Inr (set_player p1 playerIndex
                                        (pl1\<lparr>damageZone := butlast (damageZone pl1),
                                             dropZone := dropZone pl1 @ [last (damageZone pl1)]\<rparr>),
                                      asked1)
                            else Inr (p1, asked1))
                      else Inr (p1, asked1))))"

text \<open>One pass of the loop of \<^verbatim>\<open>damageCheck\<close>, and the loop.\<close>

definition damageCheckOnce :: "pidx \<Rightarrow> readline option \<Rightarrow> party \<times> nat \<Rightarrow> error + party \<times> nat" where
  "damageCheckOnce playerIndex rl st =
     (let p = fst st; pl = players p playerIndex
      in if deck pl \<noteq> []
         then (let checkedCard = last (deck pl);
                   p1 = set_player p playerIndex (pl\<lparr>deck := butlast (deck pl)\<rparr>)
               in case (case trigger checkedCard of
                          None \<Rightarrow> Inr (p1, snd st)
                        | Some t \<Rightarrow> if t \<noteq> [] then applyTriggerEffect t playerIndex rl (p1, snd st)
                                    else Inr (p1, snd st)) of
                    Inl e \<Rightarrow> Inl e
                  | Inr (p2, asked) \<Rightarrow>
                      Inr (set_player p2 playerIndex
                             ((players p2 playerIndex)
                                \<lparr>damageZone := damageZone (players p2 playerIndex) @ [checkedCard]\<rparr>),
                           asked))
         else Inr st)"

fun damageCheck :: "pidx \<Rightarrow> nat \<Rightarrow> readline option \<Rightarrow> party \<times> nat \<Rightarrow> error + party \<times> nat" where
  "damageCheck playerIndex 0 rl st = Inr st"
| "damageCheck playerIndex (Suc amount) rl st =
     (case damageCheckOnce playerIndex rl st of
        Inl e \<Rightarrow> Inl e
      | Inr st' \<Rightarrow> damageCheck playerIndex amount rl st')"

section \<open>Effect library (core/EffectLibrary.js)\<close>

text \<open>
  An effect procedure works on the state it is given and may raise.
  \<^verbatim>\<open>onRideIfSecondDraw\<close> destructures \<^verbatim>\<open>eventPayload.target\<close> and reads the name of
  its first element for the log line, before it draws.
\<close>

definition onRideIfSecondDraw :: "party \<Rightarrow> payload \<Rightarrow> error + party" where
  "onRideIfSecondDraw p evp =
     (case target_p evp of
        None \<Rightarrow> Inl (TypeError ''eventPayload.target is not iterable'')
      | Some [] \<Rightarrow> Inl (TypeError ''Cannot read properties of undefined (reading name)'')
      | Some (riddedCard # rest) \<Rightarrow> Inr (draw p (currentPlayerIndex p) 1))"

fun remove_at :: "nat \<Rightarrow> 'a list \<Rightarrow> 'a list" where
  "remove_at i xs = take i xs @ drop (Suc i) xs"

fun findIndex :: "('a \<Rightarrow> bool) \<Rightarrow> 'a list \<Rightarrow> nat option" where
  "findIndex P [] = None"
| "findIndex P (x # xs) = (if P x then Some 0 else map_option Suc (findIndex P xs))"

definition onRideEnergyCrest :: "party \<Rightarrow> payload \<Rightarrow> error + party" where
  "onRideEnergyCrest p evp =
     (let playerIndex = currentPlayerIndex p;
          pl = players p playerIndex;
          pl1 = (case findIndex (\<lambda>c. name c = ''Energy Generator'') (rideDeck pl) of
                   None \<Rightarrow> pl
                 | Some crestIndex \<Rightarrow>
                     pl\<lparr>rideDeck := remove_at crestIndex (rideDeck pl),
                        crestZone := crestZone pl @ [rideDeck pl ! crestIndex],
                        continuousEffects := continuousEffects pl @ [''MAX_ENERGY_10'']\<rparr>);
          pl2 = (if playerIndex = P1 then pl1\<lparr>energy := energy pl1 + 3\<rparr> else pl1)
      in Inr (set_player p playerIndex pl2))"

definition onRidePhaseStartEnergyCrest :: "party \<Rightarrow> payload \<Rightarrow> error + party" where
  "onRidePhaseStartEnergyCrest p evp =
     (let playerIndex = currentPlayerIndex p; pl = players p playerIndex
      in Inr (set_player p playerIndex (pl\<lparr>energy := energy pl + 3\<rparr>)))"

definition onActEnergyCrest :: "party \<Rightarrow> payload \<Rightarrow> error + party" where
  "onActEnergyCrest p evp =
     (let playerIndex = currentPlayerIndex p; pl = players p playerIndex
      in Inr (draw (set_player p playerIndex (pl\<lparr>energy := energy pl - 7\<rparr>)) playerIndex 1))"

definition effectLibrary :: "(party \<Rightarrow> payload \<Rightarrow> error + party) list" where
  "effectLibrary = [onRideIfSecondDraw, onRideEnergyCrest, onRidePhaseStartEnergyCrest, onActEnergyCrest]"

text \<open>
  \<^verbatim>\<open>effectLibrary[i]\<close> is \<^verbatim>\<open>undefined\<close> beyond the array; calling it raises
  TypeError.
\<close>

definition nth_opt :: "'a list \<Rightarrow> nat \<Rightarrow> 'a option" where
  "nth_opt xs i = (if i < length xs then Some (xs ! i) else None)"

definition callEffect :: "nat \<Rightarrow> party \<Rightarrow> payload \<Rightarrow> error + party" where
  "callEffect i p evp =
     (case nth_opt effectLibrary i of
        None \<Rightarrow> Inl (TypeError ''effectFunction is not a function'')
      | Some effectFunction \<Rightarrow> effectFunction p evp)"


lemma draw_eventQueue [simp]: "eventQueue (draw p i n) = eventQueue p"
  by (simp add: draw_def set_player_def)

lemma callEffect_eventQueue: "callEffect i p evp = Inr p' \<Longrightarrow> eventQueue p' = eventQueue p"
proof -
  assume a: "callEffect i p evp = Inr p'"
  have "i < 4 \<Longrightarrow> i = 0 \<or> i = 1 \<or> i = 2 \<or> i = 3" by arith
  with a show ?thesis
    by (auto simp: callEffect_def nth_opt_def effectLibrary_def onRideIfSecondDraw_def
          onRideEnergyCrest_def onRidePhaseStartEnergyCrest_def onActEnergyCrest_def
          set_player_def Let_def
        split: if_splits option.splits list.splits)
qed

section \<open>Action applier (core/ActionApplier.js)\<close>

text \<open>
  \<^verbatim>\<open>cloneDeep\<close> (core/cloneDeep.js) builds a new object graph with the contents of the old
  one, own property by own property, and keeps the sharing inside the graph through its
  table of seen objects. In a model of values the clone is the same value; what sets it
  apart from the input is that it is another object. The result of an applier says which
  object it returned: \<open>Cloned q\<close> is \<^verbatim>\<open>return newGameState\<close>, the clone with contents
  \<open>q\<close>; \<open>Unchanged msg\<close> is \<^verbatim>\<open>return gameState\<close>, the reference it was given, after
  the console line \<open>msg\<close>. An exception escapes an applier while it works on its clone.
\<close>

definition cloneDeep :: "party \<Rightarrow> party" where
  "cloneDeep obj = obj"

datatype applied = Unchanged string | Cloned party

definition reset_card :: "card \<Rightarrow> card" where
  "reset_card c = c\<lparr>isResting := False, bonusPower := 0, bonusCritical := 0, isPublic := False\<rparr>"

definition applyMulligan :: "(nat \<Rightarrow> nat) \<Rightarrow> party \<Rightarrow> nat list \<Rightarrow> applied" where
  "applyMulligan rnd gameState indices =
     (let newGameState = cloneDeep gameState;
          cpi = currentPlayerIndex newGameState;
          activePlayer = players newGameState cpi;
          indexed = zip [0..<length (hand activePlayer)] (hand activePlayer);
          cardsToKeep = map snd (filter (\<lambda>ic. fst ic \<notin> set indices) indexed);
          cardsToRedraw = map (\<lambda>ic. reset_card (snd ic)) (filter (\<lambda>ic. fst ic \<in> set indices) indexed);
          p1 = set_player newGameState cpi
                 (activePlayer\<lparr>deck := cardsToRedraw @ deck activePlayer, hand := cardsToKeep\<rparr>);
          p2 = shuffleDeck rnd p1 cpi;
          p3 = draw p2 cpi (length cardsToRedraw)
      in Cloned (if cpi = P0 then p3\<lparr>currentPlayerIndex := P1\<rparr>
                 else p3\<lparr>currentPlayerIndex := P0, phase := ''stand''\<rparr>))"

text \<open>
  \<^verbatim>\<open>applyCall\<close>. \<^verbatim>\<open>action.cardIndexInHand\<close> may be absent: \<^verbatim>\<open>undefined < 0\<close> and
  \<^verbatim>\<open>undefined >= n\<close> are both false, and \<^verbatim>\<open>splice(undefined, 1)\<close> starts at 0. The
  destructured \<^verbatim>\<open>cardToCall\<close> is \<^verbatim>\<open>undefined\<close> when nothing was removed. The test
  \<^verbatim>\<open>!targetCircle\<close> after \<^verbatim>\<open>getCircle\<close> never holds: \<^verbatim>\<open>getCircle\<close> returns a
  circle or raises.
\<close>

definition applyCall :: "party \<Rightarrow> int option \<Rightarrow> string \<Rightarrow> error + applied" where
  "applyCall gameState cardIndex tag =
     (let newGameState = cloneDeep gameState;
          cpi = currentPlayerIndex newGameState;
          activePlayer = players newGameState cpi
      in if (case cardIndex of None \<Rightarrow> False
                             | Some i \<Rightarrow> i < 0 \<or> i \<ge> int (length (hand activePlayer)))
         then Inr (Unchanged ''ActionApplier Error: Card not found in hand for CALL.'')
         else (let start = (case cardIndex of None \<Rightarrow> 0 | Some i \<Rightarrow> nat i);
                   cardToCall = nth_opt (hand activePlayer) start;
                   pl1 = activePlayer\<lparr>hand := remove_at start (hand activePlayer)\<rparr>
               in case getCircle tag of
                    Inl e \<Rightarrow> Inl e
                  | Inr targetC \<Rightarrow>
                      (let pl2 = (case board pl1 targetC of
                                    None \<Rightarrow> pl1
                                  | Some u \<Rightarrow> pl1\<lparr>dropZone := dropZone pl1 @ [u]\<rparr>)
                       in Inr (Cloned (set_player newGameState cpi
                                 (pl2\<lparr>board := (board pl2)(targetC := cardToCall)\<rparr>))))))"

definition applyMove :: "party \<Rightarrow> string \<Rightarrow> string \<Rightarrow> error + applied" where
  "applyMove gameState from_name to_name =
     (let newGameState = cloneDeep gameState;
          cpi = currentPlayerIndex newGameState;
          activePlayer = players newGameState cpi;
          b = board activePlayer
      in case getCircle from_name of
           Inl e \<Rightarrow> Inl e
         | Inr circle1 \<Rightarrow>
            (case getCircle to_name of
               Inl e \<Rightarrow> Inl e
             | Inr circle2 \<Rightarrow>
                 (let tempUnit = b circle1;
                      b1 = b(circle1 := b circle2);
                      b2 = b1(circle2 := tempUnit)
                  in Inr (Cloned (set_player newGameState cpi (activePlayer\<lparr>board := b2\<rparr>))))))"

definition applyGuard :: "party \<Rightarrow> string \<Rightarrow> applied" where
  "applyGuard gameState instanceId =
     (let newGameState = cloneDeep gameState;
          d = other (currentPlayerIndex newGameState);
          defendingPlayer = players newGameState d
      in case findIndex (\<lambda>c. uniqueId c = instanceId) (hand defendingPlayer) of
           None \<Rightarrow> Unchanged ''ActionApplier Error: Card not found in hand for GUARD.''
         | Some cardIndex \<Rightarrow>
             Cloned (set_player newGameState d
               (defendingPlayer\<lparr>hand := remove_at cardIndex (hand defendingPlayer),
                                guardianZone := guardianZone defendingPlayer
                                                  @ [hand defendingPlayer ! cardIndex]\<rparr>)))"

definition applyIntercept :: "party \<Rightarrow> string \<Rightarrow> string \<Rightarrow> error + applied" where
  "applyIntercept gameState instanceId from_name =
     (let newGameState = cloneDeep gameState;
          d = other (currentPlayerIndex newGameState);
          defendingPlayer = players newGameState d
      in case getCircle from_name of
           Inl e \<Rightarrow> Inl e
         | Inr circle \<Rightarrow>
            (case board defendingPlayer circle of
               None \<Rightarrow> Inr (Unchanged ''ActionApplier Error: Unit not found on circle for INTERCEPT.'')
             | Some u \<Rightarrow>
                 if uniqueId u \<noteq> instanceId
                 then Inr (Unchanged ''ActionApplier Error: Unit not found on circle for INTERCEPT.'')
                 else Inr (Cloned (set_player newGameState d
                        (defendingPlayer\<lparr>board := (board defendingPlayer)(circle := None),
                                         guardianZone := guardianZone defendingPlayer
                                                           @ [u\<lparr>isResting := True\<rparr>]\<rparr>)))))"

text \<open>The payload \<^verbatim>\<open>{}\<close> that \<^verbatim>\<open>applyAct\<close> passes has no target.\<close>

definition emptyPayload :: payload where
  "emptyPayload = \<lparr>type_p = [], target_p = None\<rparr>"

definition applyAct :: "party \<Rightarrow> effect \<Rightarrow> error + applied" where
  "applyAct gameState eff =
     (let newGameState = cloneDeep gameState;
          cpi = currentPlayerIndex newGameState;
          activePlayer = players newGameState cpi
      in if (case cost_energy eff of None \<Rightarrow> False
                                   | Some e \<Rightarrow> e \<noteq> 0 \<and> energy activePlayer < e)
         then Inr (Unchanged ''> Cannot activate: not enough energy.'')
         else (let p1 = (if once_per_turn eff
                         then set_player newGameState cpi
                                (activePlayer\<lparr>usedTurnlyEffects :=
                                   usedTurnlyEffects activePlayer @ [function_index eff]\<rparr>)
                         else newGameState)
               in case nth_opt effectLibrary (function_index eff) of
                    None \<Rightarrow> Inr (Cloned p1)
                  | Some effectFunction \<Rightarrow>
                      (case effectFunction p1 emptyPayload of
                         Inl e \<Rightarrow> Inl e
                       | Inr p2 \<Rightarrow> Inr (Cloned p2))))"

text \<open>
  \<^verbatim>\<open>applyAttack\<close>. The two circles are looked up on the boards of the active player and
  of the opponent. With \<^verbatim>\<open>boost\<close> set and an attacker outside the front row the
  booster's name is \<^verbatim>\<open>undefined\<close> and \<^verbatim>\<open>getCircle\<close> raises.
\<close>

definition rest_unit :: "card \<Rightarrow> card" where
  "rest_unit u = u\<lparr>isResting := True\<rparr>"

definition applyAttack :: "party \<Rightarrow> string \<Rightarrow> string \<Rightarrow> bool \<Rightarrow> error + applied" where
  "applyAttack gameState attackerName targetName boosted =
     (let newGameState = cloneDeep gameState;
          cpi = currentPlayerIndex newGameState;
          activePlayer = players newGameState cpi;
          opponentPlayer = players newGameState (other cpi)
      in case getCircle attackerName of
           Inl e \<Rightarrow> Inl e
         | Inr attackerC \<Rightarrow>
            (case getCircle targetName of
               Inl e \<Rightarrow> Inl e
             | Inr targetC \<Rightarrow>
                (case (board activePlayer attackerC, board opponentPlayer targetC) of
                   (Some attacker, Some tgt) \<Rightarrow>
                     (let pl1 = activePlayer\<lparr>board := (board activePlayer)(attackerC := Some (rest_unit attacker))\<rparr>;
                          power0 = num (power_c attacker) + bonusPower attacker
                      in case (if boosted
                               then (case backRowCircle attackerC of
                                       None \<Rightarrow> Inl (Error ''Circle not found'')
                                     | Some boosterC \<Rightarrow>
                                         (case board pl1 boosterC of
                                            None \<Rightarrow> Inr (pl1, power0)
                                          | Some booster \<Rightarrow>
                                              Inr (pl1\<lparr>board := (board pl1)(boosterC := Some (rest_unit booster))\<rparr>,
                                                   power0 + (num (power_c booster) + bonusPower booster))))
                               else Inr (pl1, power0)) of
                           Inl e \<Rightarrow> Inl e
                         | Inr (pl2, power1) \<Rightarrow>
                             Inr (Cloned ((set_player newGameState cpi pl2)
                                   \<lparr>phase := ''guard'',
                                    currentBattle := Some \<lparr>attackerCircle = (cpi, attackerC),
                                                           targetCircle = (other cpi, targetC),
                                                           attackerPower = power1\<rparr>\<rparr>)))
                 | _ \<Rightarrow> Inr (Unchanged ''ActionApplier Error: Invalid attacker or target for ATTACK.''))))"


text \<open>
  \<^verbatim>\<open>applyCloseStep\<close>. \<^verbatim>\<open>currentBattle\<close> is destructured (TypeError on
  \<^verbatim>\<open>null\<close>); the units of the target and attacker circles are read without a test
  (TypeError on \<^verbatim>\<open>null\<close>). \<^verbatim>\<open>card.shield || 0\<close> is \<open>num\<close>. The damage check runs
  under \<^verbatim>\<open>if (rl)\<close>.
\<close>

definition totalShield :: "card list \<Rightarrow> int" where
  "totalShield gz = foldl (\<lambda>sum c. sum + num (shield c)) 0 gz"

definition can_attack :: "board \<Rightarrow> cname \<Rightarrow> bool" where
  "can_attack b c = (case b c of None \<Rightarrow> False | Some u \<Rightarrow> \<not> isResting u)"

definition endOfBattle :: "party \<Rightarrow> party" where
  "endOfBattle p1 =
     (let d = other (currentPlayerIndex p1);
          opponentPlayer = players p1 d;
          p2 = set_player p1 d
                 (opponentPlayer\<lparr>dropZone := dropZone opponentPlayer @ guardianZone opponentPlayer,
                                 guardianZone := []\<rparr>);
          p3 = p2\<lparr>currentBattle := None\<rparr>;
          activePlayer = players p3 (currentPlayerIndex p3);
          potentialAttackers = filter (can_attack (board activePlayer)) frontRow
      in p3\<lparr>phase := (if length potentialAttackers = 0 then ''end'' else ''battle'')\<rparr>)"

definition retire :: "party \<Rightarrow> pidx \<times> cname \<Rightarrow> card \<Rightarrow> party" where
  "retire p tc u =
     (let d = other (currentPlayerIndex p);
          opponentPlayer = players p d;
          p1 = set_player p d (opponentPlayer\<lparr>dropZone := dropZone opponentPlayer @ [u]\<rparr>)
      in set_unit p1 tc None)"

text \<open>
  The test \<^verbatim>\<open>attackerPower >= targetPower\<close> with \<^verbatim>\<open>totalShield\<close> and
  \<^verbatim>\<open>targetPower\<close> as the source computes them.
\<close>

definition attackHits :: "party \<Rightarrow> battle \<Rightarrow> card \<Rightarrow> bool" where
  "attackHits newGameState b tgt =
     (let opponentPlayer = players newGameState (other (currentPlayerIndex newGameState));
          shields = totalShield (guardianZone opponentPlayer);
          targetPower = num (power_c tgt) + bonusPower tgt + shields
      in attackerPower b \<ge> targetPower)"

text \<open>The branch taken on a hit.\<close>

definition resolveHit :: "party \<Rightarrow> battle \<Rightarrow> card \<Rightarrow> readline option \<Rightarrow> error + party" where
  "resolveHit newGameState b tgt rl =
     (if circle_name (snd (targetCircle b)) = ''V''
      then (case unit_at newGameState (attackerCircle b) of
              None \<Rightarrow> Inl (TypeError ''Cannot read properties of null (reading critical)'')
            | Some atk \<Rightarrow>
               (let damage = critical atk + bonusCritical atk
                in case rl of
                     None \<Rightarrow> Inr newGameState
                   | Some ask \<Rightarrow>
                       (case damageCheck (other (currentPlayerIndex newGameState)) (nat damage) rl
                               (newGameState, 0) of
                          Inl e \<Rightarrow> Inl e
                        | Inr st \<Rightarrow> Inr (fst st))))
      else Inr (retire newGameState (targetCircle b) tgt))"

definition applyCloseStep :: "party \<Rightarrow> readline option \<Rightarrow> error + party" where
  "applyCloseStep gameState rl =
     (let newGameState = cloneDeep gameState
      in case currentBattle newGameState of
           None \<Rightarrow> Inl (TypeError ''Cannot destructure property attackerCircle of null'')
         | Some b \<Rightarrow>
            (case unit_at newGameState (targetCircle b) of
               None \<Rightarrow> Inl (TypeError ''Cannot read properties of null (reading power)'')
             | Some tgt \<Rightarrow>
                (case (if attackHits newGameState b tgt
                       then resolveHit newGameState b tgt rl
                       else Inr newGameState) of
                   Inl e \<Rightarrow> Inl e
                 | Inr p1 \<Rightarrow> Inr (endOfBattle p1))))"

definition applyRide :: "party \<Rightarrow> string \<Rightarrow> string \<Rightarrow> string option \<Rightarrow> applied" where
  "applyRide gameState rideId src discardId =
     (let newGameState = cloneDeep gameState;
          cpi = currentPlayerIndex newGameState;
          a = players newGameState cpi
      in case (if src = ''hand''
               then (case findIndex (\<lambda>c. id_c c = rideId) (hand a) of
                       None \<Rightarrow> Inl ''ActionApplier Error: Card not found in hand for RIDE.''
                     | Some cardIndex \<Rightarrow>
                         Inr (hand a ! cardIndex, a\<lparr>hand := remove_at cardIndex (hand a)\<rparr>))
               else if src = ''rideDeck''
               then (case findIndex (\<lambda>c. id_c c = rideId) (rideDeck a) of
                       None \<Rightarrow> Inl ''ActionApplier Error: Card not found in ride deck for RIDE.''
                     | Some cardIndex \<Rightarrow>
                        (let a1 = a\<lparr>rideDeck := remove_at cardIndex (rideDeck a)\<rparr>
                         in case findIndex (\<lambda>c. Some (id_c c) = discardId) (hand a1) of
                              None \<Rightarrow> Inl ''ActionApplier Error: Card to discard not found in hand.''
                            | Some discardCardIndex \<Rightarrow>
                                Inr (rideDeck a ! cardIndex,
                                     a1\<lparr>hand := remove_at discardCardIndex (hand a1),
                                        dropZone := dropZone a1 @ [hand a1 ! discardCardIndex]\<rparr>)))
               else Inl ''ActionApplier Error: Unknown source for RIDE action.'') of
           Inl msg \<Rightarrow> Unchanged msg
         | Inr (cardToRide, a2) \<Rightarrow>
            (let a3 = (case board a2 V of None \<Rightarrow> a2 | Some v \<Rightarrow> a2\<lparr>soul := soul a2 @ [v]\<rparr>);
                 queue = (case board a2 V of
                            None \<Rightarrow> eventQueue newGameState
                          | Some v \<Rightarrow> eventQueue newGameState
                                       @ [\<lparr>type_ev = ''ON_RIDE'', target = Some [v, cardToRide],
                                           pendingEffects = None\<rparr>])
             in Cloned ((set_player newGameState cpi (a3\<lparr>board := (board a3)(V := Some cardToRide)\<rparr>))
                          \<lparr>eventQueue := queue, nextPhase := Some ''main''\<rparr>)))"

definition applyPassRidePhase :: "party \<Rightarrow> applied" where
  "applyPassRidePhase gameState = Cloned (cloneDeep gameState)"

text \<open>
  \<^verbatim>\<open>collectEffectsForEvent\<close>. \<^verbatim>\<open>toLowerCase\<close> is taken on the letters A to Z. The
  cards of both players are scanned: board (front row, back row), ride deck, crest zone,
  soul. The checks of an effect run in the order of the source, so the condition is only
  evaluated for an effect that passed the three before it.
\<close>

definition lower_char :: "char \<Rightarrow> char" where
  "lower_char c = (let n = (of_char c :: nat) in if 65 \<le> n \<and> n \<le> 90 then char_of (n + 32) else c)"

definition toLowerCase :: "string \<Rightarrow> string" where
  "toLowerCase s = map lower_char s"

definition cardsInPlay :: "party \<Rightarrow> (card \<times> string \<times> pidx) list" where
  "cardsInPlay p =
     concat (map (\<lambda>i. let pl = players p i
                      in map (\<lambda>u. (u, ''board'', i)) (units_of (board pl) frontRow)
                         @ map (\<lambda>u. (u, ''board'', i)) (units_of (board pl) backRow)
                         @ map (\<lambda>c. (c, ''rideDeck'', i)) (rideDeck pl)
                         @ map (\<lambda>c. (c, ''crestZone'', i)) (crestZone pl)
                         @ map (\<lambda>c. (c, ''soul'', i)) (soul pl)) [P0, P1])"

definition collectEffectsForEvent ::
  "host \<Rightarrow> event \<Rightarrow> party \<Rightarrow> error + pending list" where
  "collectEffectsForEvent host ev p =
     (let eventTriggerName = toLowerCase (type_ev ev)
      in for_each (\<lambda>(c, z, ownerIndex).
           for_each (\<lambda>eff.
              if trigger_e eff \<noteq> eventTriggerName then Inr []
              else if (case zone eff of None \<Rightarrow> False | Some ez \<Rightarrow> ez \<noteq> [] \<and> ez \<noteq> z) then Inr []
              else if ownerIndex \<noteq> currentPlayerIndex p then Inr []
              else (case holds host (condition eff) p of
                      Inl e \<Rightarrow> Inl e
                    | Inr ok \<Rightarrow>
                        if ok
                        then Inr [\<lparr>cardName = name c, cardId = id_c c, effect = eff,
                                   eventPayload = \<lparr>type_p = type_ev ev, target_p = target ev\<rparr>\<rparr>]
                        else Inr []))
             (implemented_effects c))
         (cardsInPlay p))"

text \<open>
  \<^verbatim>\<open>applyActivateEffect\<close>. \<^verbatim>\<open>currentEvent?.pendingEffects.find\<close> guards the event
  only: an event without a pending list raises TypeError. After the procedure has run, the
  first matching entry is removed from the list of \<^verbatim>\<open>currentEvent\<close>, the object read
  before the call; it is still the head of the queue, since no procedure of the library
  touches the queue (\<open>callEffect_eventQueue\<close>).
\<close>

definition matches :: "pending \<Rightarrow> pending \<Rightarrow> bool" where
  "matches eta q = (cardId q = cardId eta
                    \<and> function_index (effect q) = function_index (effect eta))"

definition applyActivateEffect :: "party \<Rightarrow> pending \<Rightarrow> error + applied" where
  "applyActivateEffect gameState eta =
     (let newGameState = cloneDeep gameState
      in case eventQueue newGameState of
           [] \<Rightarrow> Inr (Unchanged ''ActionApplier Error: Could not find the original pending effect to activate.'')
         | currentEvent # rest \<Rightarrow>
            (case pendingEffects currentEvent of
               None \<Rightarrow> Inl (TypeError ''Cannot read properties of undefined (reading find)'')
             | Some pend \<Rightarrow>
                (case find (matches eta) pend of
                   None \<Rightarrow> Inr (Unchanged ''ActionApplier Error: Could not find the original pending effect to activate.'')
                 | Some originalPendingEffect \<Rightarrow>
                    (case (case nth_opt effectLibrary (function_index (effect eta)) of
                             None \<Rightarrow> Inr newGameState
                           | Some effectFunction \<Rightarrow>
                               effectFunction newGameState (eventPayload originalPendingEffect)) of
                       Inl e \<Rightarrow> Inl e
                     | Inr p1 \<Rightarrow>
                         Inr (Cloned (p1\<lparr>eventQueue :=
                                currentEvent\<lparr>pendingEffects :=
                                  Some (case findIndex (matches eta) pend of
                                          None \<Rightarrow> pend
                                        | Some indexToRemove \<Rightarrow> remove_at indexToRemove pend)\<rparr>
                                # rest\<rparr>))))))"

definition applyPassEffect :: "party \<Rightarrow> applied" where
  "applyPassEffect gameState =
     (let newGameState = cloneDeep gameState
      in case eventQueue newGameState of
           [] \<Rightarrow> Cloned newGameState
         | currentEvent # rest \<Rightarrow>
            (case pendingEffects currentEvent of
               None \<Rightarrow> Cloned newGameState
             | Some pend \<Rightarrow>
                 Cloned (newGameState\<lparr>eventQueue :=
                           currentEvent\<lparr>pendingEffects := Some (filter (\<lambda>q. mandatory (effect q)) pend)\<rparr>
                           # rest\<rparr>)))"


text \<open>
  \<^verbatim>\<open>processEvents\<close> works in place on the object it is given. \<open>Done q\<close> is the
  return of that object with contents \<open>q\<close>; \<open>Raised e q\<close> is an exception that left
  the object with contents \<open>q\<close>.

  One pass of the loop: the pending list of the head event is collected if the event has
  none; \<^verbatim>\<open>mandatoryEffects[0]\<close> is the first mandatory entry of the list, and
  \<^verbatim>\<open>indexOf\<close> finds that same object, so \<^verbatim>\<open>splice\<close> removes the entry at the
  position of the first mandatory one; then the procedure is called.
\<close>

datatype run = Raised error party | Done party

definition is_mandatory :: "pending \<Rightarrow> bool" where
  "is_mandatory q = mandatory (effect q)"

definition pending_of :: "host \<Rightarrow> party \<Rightarrow> event \<Rightarrow> error + pending list" where
  "pending_of host p ev =
     (case pendingEffects ev of
        Some pend \<Rightarrow> Inr pend
      | None \<Rightarrow> collectEffectsForEvent host ev p)"

definition with_pending :: "party \<Rightarrow> event \<Rightarrow> event list \<Rightarrow> pending list \<Rightarrow> party" where
  "with_pending p ev rest pend = p\<lparr>eventQueue := ev\<lparr>pendingEffects := Some pend\<rparr> # rest\<rparr>"

definition head_count :: "host \<Rightarrow> party \<Rightarrow> nat" where
  "head_count host p =
     (case eventQueue p of
        [] \<Rightarrow> 0
      | ev # rest \<Rightarrow> (case pending_of host p ev of Inl e \<Rightarrow> 0 | Inr pend \<Rightarrow> Suc (length pend)))"

function processEvents :: "host \<Rightarrow> party \<Rightarrow> run" where
  "processEvents host p =
     (case eventQueue p of
        [] \<Rightarrow> Done (p\<lparr>phase := (case nextPhase p of
                                   None \<Rightarrow> ''main''
                                 | Some ph \<Rightarrow> if ph = [] then ''main'' else ph)\<rparr>)
      | currentEvent # rest \<Rightarrow>
         (case pending_of host p currentEvent of
            Inl e \<Rightarrow> Raised e p
          | Inr pend \<Rightarrow>
             (case findIndex is_mandatory pend of
                Some i \<Rightarrow>
                  (case callEffect (function_index (effect (pend ! i)))
                          (with_pending p currentEvent rest (remove_at i pend))
                          (eventPayload (pend ! i)) of
                     Inl e \<Rightarrow> Raised e (with_pending p currentEvent rest (remove_at i pend))
                   | Inr p' \<Rightarrow> processEvents host p')
              | None \<Rightarrow>
                  if length (filter (\<lambda>q. \<not> is_mandatory q) pend) > 0
                  then Done ((with_pending p currentEvent rest pend)\<lparr>phase := ''effect_resolution''\<rparr>)
                  else processEvents host ((with_pending p currentEvent rest pend)\<lparr>eventQueue := rest\<rparr>))))"
  by pat_completeness auto

lemma findIndex_Some: "findIndex P xs = Some i \<Longrightarrow> i < length xs \<and> P (xs ! i) \<and> (\<forall>j<i. \<not> P (xs ! j))"
proof (induction xs arbitrary: i)
  case Nil
  then show ?case by simp
next
  case (Cons x xs)
  show ?case
  proof (cases "P x")
    case True
    with Cons.prems show ?thesis by simp
  next
    case False
    with Cons.prems obtain k where k: "findIndex P xs = Some k" "i = Suc k" by auto
    from Cons.IH[OF k(1)] have ih: "k < length xs" "P (xs ! k)" "\<forall>j<k. \<not> P (xs ! j)" by auto
    have "\<forall>j<Suc k. \<not> P ((x # xs) ! j)"
    proof (intro allI impI)
      fix j assume "j < Suc k"
      then show "\<not> P ((x # xs) ! j)" using False ih(3) by (cases j) auto
    qed
    with ih k show ?thesis by simp
  qed
qed

lemma findIndex_None: "findIndex P xs = None \<Longrightarrow> filter P xs = []"
  by (induction xs) (auto split: if_splits)

lemma length_remove_at: "i < length xs \<Longrightarrow> Suc (length (remove_at i xs)) = length xs"
  by auto

termination processEvents
proof (relation "measures [\<lambda>(host, p). length (eventQueue p), \<lambda>(host, p). head_count host p]")
  show "wf (measures [\<lambda>(host, p). length (eventQueue p), \<lambda>(host, p). head_count host p])"
    by simp
next
  fix host :: host and p currentEvent rest pend i p'
  assume q: "eventQueue p = currentEvent # rest"
    and pe: "pending_of host p currentEvent = Inr pend"
    and fi: "findIndex is_mandatory pend = Some i"
    and ce: "callEffect (function_index (effect (pend ! i)))
               (with_pending p currentEvent rest (remove_at i pend)) (eventPayload (pend ! i)) = Inr p'"
  from callEffect_eventQueue[OF ce]
  have q': "eventQueue p' = currentEvent\<lparr>pendingEffects := Some (remove_at i pend)\<rparr> # rest"
    by (simp add: with_pending_def)
  from findIndex_Some[OF fi] have "i < length pend" by simp
  then have "Suc (length (remove_at i pend)) = length pend" by (rule length_remove_at)
  then have "head_count host p' < head_count host p"
    using q q' pe by (simp add: head_count_def pending_of_def)
  then show "((host, p'), (host, p))
        \<in> measures [\<lambda>(host, p). length (eventQueue p), \<lambda>(host, p). head_count host p]"
    using q q' by simp
next
  fix host :: host and p :: party and currentEvent rest pend
  assume q: "eventQueue p = currentEvent # rest"
  then show "((host, (with_pending p currentEvent rest pend)\<lparr>eventQueue := rest\<rparr>), (host, p))
        \<in> measures [\<lambda>(host, p). length (eventQueue p), \<lambda>(host, p). head_count host p]"
    by simp
qed

declare processEvents.simps [simp del]

text \<open>
  \<^verbatim>\<open>applyAction\<close>. The third argument of the source, the readline interface, only
  guards console lines in the appliers and is left out. The outcome says what the call
  did to the object it was given: \<open>Threw e q\<close> is an exception, \<open>RetSame q msgs\<close> the
  return of the input object itself, \<open>RetClone q\<close> the return of another object; in
  the first two \<open>q\<close> is the contents of the input object after the call, in the third
  the contents of the returned one, the input being as it was.
\<close>

datatype outcome = Threw error party | RetSame party "string list" | RetClone party

definition ret :: "party \<Rightarrow> applied \<Rightarrow> outcome" where
  "ret gameState r = (case r of Unchanged msg \<Rightarrow> RetSame gameState [msg] | Cloned q \<Rightarrow> RetClone q)"

text \<open>
  The tail of \<^verbatim>\<open>applyAction\<close> on \<^verbatim>\<open>newGameState\<close>: an assignment to
  \<^verbatim>\<open>nextPhase\<close> when \<^verbatim>\<open>postActionPhase\<close> is set, then \<^verbatim>\<open>processEvents\<close>, both
  in place, on whichever object the applier returned.
\<close>

definition run_events ::
  "host \<Rightarrow> party \<Rightarrow> applied \<Rightarrow> string option \<Rightarrow> outcome" where
  "run_events host gameState r postActionPhase =
     (let assign = (\<lambda>q. case postActionPhase of None \<Rightarrow> q | Some ph \<Rightarrow> q\<lparr>nextPhase := Some ph\<rparr>)
      in case r of
           Unchanged msg \<Rightarrow>
             (case processEvents host (assign gameState) of
                Raised e q \<Rightarrow> Threw e q
              | Done q \<Rightarrow> RetSame q [msg])
         | Cloned q0 \<Rightarrow>
             (case processEvents host (assign q0) of
                Raised e q \<Rightarrow> Threw e gameState
              | Done q \<Rightarrow> RetClone q))"

definition lift :: "party \<Rightarrow> error + applied \<Rightarrow> (applied \<Rightarrow> outcome) \<Rightarrow> outcome" where
  "lift gameState r k = (case r of Inl e \<Rightarrow> Threw e gameState | Inr a \<Rightarrow> k a)"

fun applyAction :: "host \<Rightarrow> (nat \<Rightarrow> nat) \<Rightarrow> party \<Rightarrow> action \<Rightarrow> outcome" where
  "applyAction host rnd gameState (MULLIGAN indices) =
     ret gameState (applyMulligan rnd gameState indices)"
| "applyAction host rnd gameState (RIDE rideId src discardId) =
     run_events host gameState (applyRide gameState rideId src discardId) (Some ''main'')"
| "applyAction host rnd gameState PASS_RIDE_PHASE =
     run_events host gameState (applyPassRidePhase gameState) (Some ''main'')"
| "applyAction host rnd gameState (CALL cardIndex instanceId tag) =
     lift gameState (applyCall gameState cardIndex tag) (ret gameState)"
| "applyAction host rnd gameState (ACT actId eff) =
     lift gameState (applyAct gameState eff) (ret gameState)"
| "applyAction host rnd gameState (ACTIVATE_EFFECT eta) =
     lift gameState (applyActivateEffect gameState eta) (\<lambda>r. run_events host gameState r None)"
| "applyAction host rnd gameState (MOVE from_name to_name) =
     lift gameState (applyMove gameState from_name to_name) (ret gameState)"
| "applyAction host rnd gameState (ATTACK attackerName targetName boosted) =
     lift gameState (applyAttack gameState attackerName targetName boosted) (ret gameState)"
| "applyAction host rnd gameState (GUARD instanceId sh) =
     ret gameState (applyGuard gameState instanceId)"
| "applyAction host rnd gameState (INTERCEPT instanceId sh from_name) =
     lift gameState (applyIntercept gameState instanceId from_name) (ret gameState)"
| "applyAction host rnd gameState PASS_EFFECT =
     ret gameState (applyPassEffect gameState)"
| "applyAction host rnd gameState PASS_MAIN_PHASE =
     run_events host gameState (Cloned (cloneDeep gameState)) (Some ''battle'')"
| "applyAction host rnd gameState PASS_BATTLE_PHASE =
     run_events host gameState (Cloned (cloneDeep gameState)) (Some ''end'')"
| "applyAction host rnd gameState PASS_GUARD_STEP =
     run_events host gameState (Cloned (cloneDeep gameState)) (Some ''drive_check'')"
| "applyAction host rnd gameState PROCESS_EVENTS =
     ret gameState (Cloned (cloneDeep gameState))"
| "applyAction host rnd gameState PASS =
     ret gameState (Cloned (cloneDeep gameState))"
| "applyAction host rnd gameState (OTHER t) =
     ret gameState (Cloned (cloneDeep gameState))"

text \<open>The contents of the object passed as \<^verbatim>\<open>gameState\<close>, after the call.\<close>

fun input_after :: "party \<Rightarrow> outcome \<Rightarrow> party" where
  "input_after gameState (Threw e q) = q"
| "input_after gameState (RetSame q msgs) = q"
| "input_after gameState (RetClone q) = gameState"


section \<open>Evaluation engine (eval/Node.js, eval/EvaluationEngine.js)\<close>

text \<open>
  The fields of a \<^verbatim>\<open>Node\<close> that backpropagation writes. Scores are real numbers here.
  A node reaches its ancestors through \<^verbatim>\<open>parent\<close>, which the constructor sets to an
  older node or to \<^verbatim>\<open>null\<close>: the nodes that \<^verbatim>\<open>_backpropagate(node, result)\<close>
  can touch are the list that starts with \<open>node\<close>, continues with each parent in turn
  and ends with the root. A reference into that list is a position, and the parent of a
  position is the next one, or \<^verbatim>\<open>null\<close> at the root.
\<close>

record scores =
  gradeScore :: real
  damageScore :: real

record mnode =
  visits :: nat
  scoreData :: scores

definition parent_at :: "mnode list \<Rightarrow> nat \<Rightarrow> nat option" where
  "parent_at path i = (if Suc i < length path then Some (Suc i) else None)"

definition accumulate :: "scores \<Rightarrow> mnode \<Rightarrow> mnode" where
  "accumulate r n =
     n\<lparr>visits := visits n + 1,
       scoreData := \<lparr>gradeScore = gradeScore (scoreData n) + gradeScore r,
                     damageScore = damageScore (scoreData n) + damageScore r\<rparr>\<rparr>"

text \<open>
  The loop of \<^verbatim>\<open>_backpropagate\<close> with its two variables. The body updates
  \<^verbatim>\<open>current\<close>, then evaluates \<^verbatim>\<open>parent = parent.parent\<close>, which raises TypeError
  when \<^verbatim>\<open>parent\<close> is \<^verbatim>\<open>null\<close>, then \<^verbatim>\<open>current = parent\<close>. The result carries
  the nodes as the loop left them.
\<close>

function backpropagate_loop ::
  "scores \<Rightarrow> mnode list \<Rightarrow> nat option \<Rightarrow> nat option \<Rightarrow> (error \<times> mnode list) + mnode list" where
  "backpropagate_loop r path parent current =
     (case current of
        None \<Rightarrow> Inr path
      | Some c \<Rightarrow>
          (let path' = path[c := accumulate r (path ! c)]
           in case parent of
                None \<Rightarrow> Inl (TypeError ''Cannot read properties of null (reading parent)'', path')
              | Some q \<Rightarrow> backpropagate_loop r path' (parent_at path' q) (parent_at path' q)))"
  by pat_completeness auto
termination
  by (relation "measure (\<lambda>(r, path, parent, current).
        case parent of None \<Rightarrow> 0 | Some q \<Rightarrow> Suc (length path - q))")
     (auto simp: parent_at_def split: if_splits)

declare backpropagate_loop.simps [simp del]

definition backpropagate :: "mnode list \<Rightarrow> scores \<Rightarrow> (error \<times> mnode list) + mnode list" where
  "backpropagate path r =
     (case path of
        [] \<Rightarrow> Inl (TypeError ''Cannot read properties of null (reading parent)'', [])
      | node # ancestors \<Rightarrow> backpropagate_loop r path (parent_at path 0) (Some 0))"

text \<open>
  \<^verbatim>\<open>_determinize\<close>. \<^verbatim>\<open>shuffle\<close> sorts an array in place with a random comparator;
  \<open>sh k\<close> stands for the rearrangement made by the \<open>k\<close>-th call. \<^verbatim>\<open>splice(0, n)\<close>
  takes the first \<open>n\<close> elements out of the array (none for a negative \<open>n\<close>) and returns
  them.
\<close>

definition is_trigger :: "card \<Rightarrow> bool" where
  "is_trigger c = truthy_str (trigger c)"

definition is_heal :: "card \<Rightarrow> bool" where
  "is_heal c = (trigger c = Some ''Heal'')"

definition is_sentinel :: "card \<Rightarrow> bool" where
  "is_sentinel c = (''Sentinel'' \<in> set (skills c))"

function deal :: "nat \<Rightarrow> card list \<Rightarrow> card list \<Rightarrow> card list \<times> card list" where
  "deal n newHand finalPool =
     (if length newHand < n \<and> length finalPool > 0
      then deal n (newHand @ [last finalPool]) (butlast finalPool)
      else (newHand, finalPool))"
  by pat_completeness auto
termination
  by (relation "measure (\<lambda>(n, newHand, finalPool). length finalPool)") auto

declare deal.simps [simp del]

definition unknownPool :: "player \<Rightarrow> card list" where
  "unknownPool opponent = deck opponent @ filter (\<lambda>c. \<not> isPublic c) (hand opponent)"

definition knownZones :: "player \<Rightarrow> card list" where
  "knownZones opponent =
     filter isPublic (hand opponent)
     @ units_of (board opponent) frontRow @ units_of (board opponent) backRow
     @ dropZone opponent @ damageZone opponent @ soul opponent"

text \<open>The pool after the last \<^verbatim>\<open>shuffle(finalPool)\<close>.\<close>

definition finalPool :: "(nat \<Rightarrow> card list \<Rightarrow> card list) \<Rightarrow> player \<Rightarrow> card list" where
  "finalPool sh opponent =
     (let knownTriggers = int (length (filter is_trigger (knownZones opponent)));
          knownHeals = int (length (filter is_heal (knownZones opponent)));
          knownSentinels = int (length (filter is_sentinel (knownZones opponent)));
          requiredTriggers = max 0 (16 - knownTriggers);
          requiredHeals = max 0 (4 - knownHeals);
          requiredSentinels = max 0 (4 - knownSentinels);
          poolHeals = sh 0 (filter is_heal (unknownPool opponent));
          poolOtherTriggers = sh 1 (filter (\<lambda>c. is_trigger c \<and> \<not> is_heal c) (unknownPool opponent));
          poolSentinels = sh 2 (filter (\<lambda>c. is_sentinel c \<and> \<not> is_trigger c) (unknownPool opponent));
          poolNormals = filter (\<lambda>c. \<not> is_trigger c \<and> \<not> is_sentinel c) (unknownPool opponent);
          requiredHealCards = take (nat requiredHeals) poolHeals;
          requiredOtherTriggerCards = take (nat (requiredTriggers - requiredHeals)) poolOtherTriggers;
          requiredSentinelCards = take (nat requiredSentinels) poolSentinels
      in sh 3 (drop (nat requiredHeals) poolHeals
               @ drop (nat (requiredTriggers - requiredHeals)) poolOtherTriggers
               @ drop (nat requiredSentinels) poolSentinels
               @ poolNormals
               @ requiredHealCards @ requiredOtherTriggerCards @ requiredSentinelCards))"

definition determinize :: "(nat \<Rightarrow> card list \<Rightarrow> card list) \<Rightarrow> party \<Rightarrow> party" where
  "determinize sh state =
     (let detState = cloneDeep state;
          opponentIndex = other (currentPlayerIndex state);
          opponent = players detState opponentIndex;
          publicOpponentCardsInHand = filter isPublic (hand opponent);
          dealt = deal (length (hand opponent)) publicOpponentCardsInHand (finalPool sh opponent)
      in set_player detState opponentIndex (opponent\<lparr>hand := fst dealt, deck := snd dealt\<rparr>))"

section \<open>Constructors\<close>

text \<open>
  A card as the \<^verbatim>\<open>Card\<close> constructor makes it from an instance id, a definition id, a
  name, a grade and a power, with the defaults of the constructor for the rest; a board
  with no units; a player state with empty zones; a party of two such players in the state
  the \<^verbatim>\<open>Party\<close> constructor leaves it in.
\<close>

definition newCard :: "string \<Rightarrow> string \<Rightarrow> string \<Rightarrow> int option \<Rightarrow> int option \<Rightarrow> card" where
  "newCard uid i n g pw =
     \<lparr>uniqueId = uid, id_c = i, name = n, grade = g, power_c = pw, critical = 1,
      shield = Some 0, skills = [], implemented_effects = [], trigger = None,
      isResting = False, bonusPower = 0, bonusCritical = 0, isPublic = False\<rparr>"

definition emptyBoard :: board where
  "emptyBoard = (\<lambda>c. None)"

definition newPlayer :: player where
  "newPlayer =
     \<lparr>deck = [], rideDeck = [], board = emptyBoard, hand = [], dropZone = [], damageZone = [],
      soul = [], gZone = [], bindZone = [], guardianZone = [], triggerZone = [], crestZone = [],
      orderZone = [], energy = 0, maxEnergy = 3, continuousEffects = [], usedTurnlyEffects = []\<rparr>"

definition newParty :: party where
  "newParty =
     \<lparr>players = (\<lambda>i. newPlayer), turn = 0, currentPlayerIndex = P0, phase = ''setup'',
      currentBattle = None, eventQueue = [], nextPhase = None\<rparr>"


section \<open>Example states\<close>

text \<open>
  A host for the examples, none of which reads a property through the host or compares
  anything but numbers.
\<close>

definition plainHost :: host where
  "plainHost = \<lparr>lookup = (\<lambda>a part. Inr (Val JUndefined)), compare = (\<lambda>r a v. Inr False)\<rparr>"

definition alpha :: card where
  "alpha = newCard ''u1'' ''c1'' ''Alpha'' (Some 0) (Some 5000)"

definition beta :: card where
  "beta = newCard ''u2'' ''c2'' ''Beta'' (Some 1) (Some 8000)"

text \<open>Main phase of player 1, who holds one card.\<close>

definition callState :: party where
  "callState = set_player (newParty\<lparr>phase := ''main''\<rparr>) P0 (newPlayer\<lparr>hand := [alpha]\<rparr>)"

text \<open>Ride phase, empty hands, empty event queue.\<close>

definition rideState :: party where
  "rideState = newParty\<lparr>phase := ''ride''\<rparr>"

text \<open>A fresh node, and the result of a rollout.\<close>

definition freshNode :: mnode where
  "freshNode = \<lparr>visits = 0, scoreData = \<lparr>gradeScore = 0, damageScore = 0\<rparr>\<rparr>"

definition rollout :: scores where
  "rollout = \<lparr>gradeScore = 1 / 4, damageScore = 1 / 2\<rparr>"

text \<open>The leaf \<^verbatim>\<open>['player.index', '===', 0]\<close>, true for player 1.\<close>

definition indexIsZero :: jsval where
  "indexIsZero = JArr [JStr ''player.index'', JStr ''==='', JNum 0]"

text \<open>
  A battle against a rear-guard: player 1 attacks from R1 with the recorded power \<open>ap\<close>,
  the target is the unit of player 2 on R2, power 11000, and nobody guards.
\<close>

definition striker :: card where
  "striker = (newCard ''u3'' ''c3'' ''Striker'' (Some 1) (Some 9000))\<lparr>isResting := True\<rparr>"

definition defender :: card where
  "defender = newCard ''u4'' ''c4'' ''Defender'' (Some 1) (Some 11000)"

definition rearBattle :: "int \<Rightarrow> party" where
  "rearBattle ap =
     (set_player (set_player newParty P0 (newPlayer\<lparr>board := emptyBoard(R1 := Some striker)\<rparr>))
        P1 (newPlayer\<lparr>board := emptyBoard(R2 := Some defender)\<rparr>))
       \<lparr>phase := ''close_step'',
        currentBattle := Some \<lparr>attackerCircle = (P0, R1), targetCircle = (P1, R2),
                               attackerPower = ap\<rparr>\<rparr>"

text \<open>
  A battle against the vanguard: player 1's vanguard (critical 1) attacks player 2's
  vanguard with power 12000 against 11000; player 2 has two cards without trigger in the
  deck, \<open>beta\<close> on top.
\<close>

definition vanguardBattle :: party where
  "vanguardBattle =
     (set_player (set_player newParty P0 (newPlayer\<lparr>board := emptyBoard(V := Some striker)\<rparr>))
        P1 (newPlayer\<lparr>board := emptyBoard(V := Some defender), deck := [alpha, beta]\<rparr>))
       \<lparr>phase := ''close_step'',
        currentBattle := Some \<lparr>attackerCircle = (P0, V), targetCircle = (P1, V),
                               attackerPower = 12000\<rparr>\<rparr>"

text \<open>The same battle when player 2 has no card left in the deck.\<close>

definition emptyDeckBattle :: party where
  "emptyDeckBattle = set_player vanguardBattle P1 ((players vanguardBattle P1)\<lparr>deck := []\<rparr>)"

text \<open>
  Two readline interfaces: one whose answers do not parse as a number, and one that
  always answers 0, the first unit listed.
\<close>

definition silent :: readline where
  "silent k = None"

definition firstUnit :: readline where
  "firstUnit k = Some 0"

text \<open>
  An event whose pending list holds an optional effect followed by a mandatory one, the
  energy charge at the start of the ride phase (index 2 of the library).
\<close>

definition chargeEffect :: effect where
  "chargeEffect =
     \<lparr>trigger_e = ''on_ride_phase_start'', zone = None, condition = JUndefined, mandatory = True,
      is_act = False, once_per_turn = False, cost_energy = None, function_index = 2\<rparr>"

definition optionalPending :: pending where
  "optionalPending =
     \<lparr>cardName = ''Alpha'', cardId = ''c1'',
      effect = chargeEffect\<lparr>mandatory := False, function_index := 3\<rparr>,
      eventPayload = \<lparr>type_p = ''ON_RIDE_PHASE_START'', target_p = None\<rparr>\<rparr>"

definition mandatoryPending :: pending where
  "mandatoryPending =
     \<lparr>cardName = ''Energy Generator'', cardId = ''c0'', effect = chargeEffect,
      eventPayload = \<lparr>type_p = ''ON_RIDE_PHASE_START'', target_p = None\<rparr>\<rparr>"

definition rideStartEvent :: event where
  "rideStartEvent =
     \<lparr>type_ev = ''ON_RIDE_PHASE_START'', target = None,
      pendingEffects = Some [optionalPending, mandatoryPending]\<rparr>"

definition eventState :: party where
  "eventState = newParty\<lparr>phase := ''ride'', eventQueue := [rideStartEvent]\<rparr>"

text \<open>
  A state to determinize for player 1. Player 2 holds a public critical trigger, a
  sentinel and a plain card; the deck has the four heal triggers, eleven critical triggers
  and three sentinels.
\<close>

definition healCard :: card where
  "healCard = (newCard ''h'' ''ch'' ''Healer'' (Some 0) (Some 5000))\<lparr>trigger := Some ''Heal''\<rparr>"

definition critCard :: card where
  "critCard = (newCard ''k'' ''ck'' ''Critter'' (Some 0) (Some 5000))\<lparr>trigger := Some ''Critical''\<rparr>"

definition sentinelCard :: card where
  "sentinelCard = (newCard ''s'' ''cs'' ''Shielder'' (Some 1) (Some 6000))\<lparr>skills := [''Sentinel'']\<rparr>"

definition hiddenState :: party where
  "hiddenState =
     set_player (newParty\<lparr>phase := ''main''\<rparr>) P1
       (newPlayer\<lparr>hand := [critCard\<lparr>isPublic := True\<rparr>, sentinelCard, alpha],
                  deck := replicate 4 healCard @ replicate 11 critCard @ replicate 3 sentinelCard\<rparr>)"

text \<open>
  The battle against the vanguard when player 2 has one damage, \<open>beta\<close>, and a heal
  trigger on top of the deck; player 1 has no damage.
\<close>

definition healBattle :: party where
  "healBattle =
     set_player vanguardBattle P1
       ((players vanguardBattle P1)\<lparr>deck := [alpha, healCard], damageZone := [beta]\<rparr>)"

text \<open>
  A guard step: player 2 defends with a unit card and an order without shield in hand, an
  interceptor on R1 and a resting interceptor on R2.
\<close>

definition orderCard :: card where
  "orderCard = (newCard ''u5'' ''c5'' ''Order'' None None)\<lparr>shield := None\<rparr>"

definition interceptor :: card where
  "interceptor = (newCard ''u6'' ''c6'' ''Wall'' (Some 2) (Some 9000))\<lparr>skills := [''Intercept'']\<rparr>"

definition guardState :: party where
  "guardState =
     set_player (newParty\<lparr>phase := ''guard''\<rparr>) P1
       (newPlayer\<lparr>hand := [alpha, orderCard],
                  board := emptyBoard(R1 := Some interceptor,
                                      R2 := Some (interceptor\<lparr>uniqueId := ''u7'', isResting := True\<rparr>))\<rparr>)"

text \<open>Main phase: player 1 has a grade 1 vanguard and holds \<open>alpha\<close> and \<open>beta\<close>.\<close>

definition mainState :: party where
  "mainState =
     set_player (newParty\<lparr>phase := ''main''\<rparr>) P0
       (newPlayer\<lparr>hand := [alpha, beta], board := emptyBoard(V := Some defender)\<rparr>)"

section \<open>Vocabulary of the claims\<close>

definition isGuard :: "action \<Rightarrow> bool" where
  "isGuard a = (case a of GUARD i s \<Rightarrow> True | _ \<Rightarrow> False)"

definition isIntercept :: "action \<Rightarrow> bool" where
  "isIntercept a = (case a of INTERCEPT i s c \<Rightarrow> True | _ \<Rightarrow> False)"

text \<open>
  The INTERCEPT action a front-row circle gives rise to, if any: its unit stands and has
  the Intercept skill.
\<close>

definition interceptOption :: "board \<Rightarrow> cname \<Rightarrow> action option" where
  "interceptOption b c =
     (case b c of
        None \<Rightarrow> None
      | Some u \<Rightarrow> if \<not> isResting u \<and> ''Intercept'' \<in> set (skills u)
                  then Some (INTERCEPT (uniqueId u) (shield u) (circle_name c)) else None)"

text \<open>
  One pass of the loop of \<^verbatim>\<open>damageCheck\<close> on the outcome of the passes before it
  (nothing runs after a raise), the state with the top card taken off a player's deck, and
  the state with a card appended to a player's damage zone.
\<close>

definition pass :: "pidx \<Rightarrow> readline option \<Rightarrow> error + party \<times> nat \<Rightarrow> error + party \<times> nat" where
  "pass d rl r = (case r of Inl e \<Rightarrow> Inl e | Inr st \<Rightarrow> damageCheckOnce d rl st)"

definition popDeck :: "pidx \<Rightarrow> party \<Rightarrow> party" where
  "popDeck d s = set_player s d ((players s d)\<lparr>deck := butlast (deck (players s d))\<rparr>)"

definition toDamage :: "pidx \<Rightarrow> card \<Rightarrow> party \<Rightarrow> party" where
  "toDamage d c s = set_player s d ((players s d)\<lparr>damageZone := damageZone (players s d) @ [c]\<rparr>)"

text \<open>The zones of a player other than hand and deck.\<close>

definition otherZones :: "player \<Rightarrow> card list" where
  "otherZones pl =
     rideDeck pl @ units_of (board pl) frontRow @ units_of (board pl) backRow
     @ dropZone pl @ damageZone pl @ soul pl @ gZone pl @ bindZone pl @ guardianZone pl
     @ triggerZone pl @ crestZone pl @ orderZone pl"

section \<open>Lemmas\<close>

subsection \<open>Lists\<close>

lemma findIndex_exists: "filter P xs \<noteq> [] \<Longrightarrow> \<exists>i. findIndex P xs = Some i"
  using findIndex_None[of P xs] by (cases "findIndex P xs") auto

lemma filter_take_first:
  assumes "findIndex P xs = Some i"
  shows "filter P (take i xs) = []"
proof -
  from findIndex_Some[OF assms] have "\<forall>j<i. \<not> P (xs ! j)" and "i < length xs" by auto
  then have "\<forall>x\<in>set (take i xs). \<not> P x"
    by (auto simp: in_set_conv_nth)
  then show ?thesis by (simp add: filter_empty_conv)
qed

lemma mset_remove_at: "i < length xs \<Longrightarrow> mset xs = add_mset (xs ! i) (mset (remove_at i xs))"
proof -
  assume i: "i < length xs"
  then have "xs = take i xs @ xs ! i # drop (Suc i) xs" by (rule id_take_nth_drop)
  then have "mset xs = mset (take i xs @ xs ! i # drop (Suc i) xs)" by simp
  then show ?thesis by simp
qed

lemma filter_remove_at:
  assumes "i < length xs" and "P (xs ! i)"
  shows "Suc (length (filter P (remove_at i xs))) = length (filter P xs)"
proof -
  from assms(1) have "xs = take i xs @ xs ! i # drop (Suc i) xs" by (rule id_take_nth_drop)
  then have "length (filter P xs) = length (filter P (take i xs @ xs ! i # drop (Suc i) xs))" by simp
  with assms(2) show ?thesis by simp
qed

lemma take_drop_mset: "mset (drop n xs) + mset (take n xs) = mset xs"
  by (metis append_take_drop_id mset_append add.commute)

lemma count_of_mset: "mset xs = mset ys \<Longrightarrow> length (filter P xs) = length (filter P ys)"
  by (metis mset_filter size_mset)

lemma list_all_weaken: "list_all P xs \<Longrightarrow> (\<And>x. P x \<Longrightarrow> Q x) \<Longrightarrow> list_all Q xs"
  by (induction xs) auto

lemma for_each_all:
  assumes "for_each f xs = Inr ys" and "\<And>x zs. f x = Inr zs \<Longrightarrow> \<forall>z\<in>set zs. P z"
  shows "\<forall>y\<in>set ys. P y"
  using assms(1)
proof (induction xs arbitrary: ys)
  case Nil
  then show ?case by simp
next
  case (Cons x xs)
  from Cons.prems obtain zs ws where f: "f x = Inr zs" and r: "for_each f xs = Inr ws"
    and ys: "ys = zs @ ws"
    by (auto split: sum.splits)
  from assms(2)[OF f] Cons.IH[OF r] ys show ?case by auto
qed

subsection \<open>Circles and players\<close>

lemma circle_name_V: "(circle_name c = ''V'') = (c = V)"
  by (cases c) simp_all

lemma getCircle_circle_name: "getCircle (circle_name c) = Inr c"
  by (cases c) (simp_all add: getCircle_def)

lemma players_set_player [simp]:
  "players (set_player p i pl) j = (if j = i then pl else players p j)"
  by (simp add: set_player_def)

lemma set_player_same: "set_player p d (players p d) = p"
  by (simp add: set_player_def)

subsection \<open>The close step\<close>

lemma foldl_shield:
  "foldl (\<lambda>sum c. sum + num (shield c)) a gz = a + sum_list (map (\<lambda>c. num (shield c)) gz)"
  by (induction gz arbitrary: a) auto

lemma totalShield_sum: "totalShield gz = sum_list (map (\<lambda>c. num (shield c)) gz)"
  by (simp add: totalShield_def foldl_shield)

lemma unit_at_endOfBattle: "unit_at (endOfBattle q) r = unit_at q r"
  by (simp add: endOfBattle_def unit_at_def set_player_def Let_def)

lemma unit_at_retire: "unit_at (retire q r u) r = None"
  by (simp add: retire_def unit_at_def set_unit_def set_player_def Let_def)

lemma dropZone_retire_endOfBattle:
  "dropZone (players (endOfBattle (retire p r u)) (other (currentPlayerIndex p)))
     = dropZone (players p (other (currentPlayerIndex p))) @ [u]
       @ guardianZone (players p (other (currentPlayerIndex p)))"
  by (simp add: endOfBattle_def retire_def set_unit_def set_player_def Let_def)

subsection \<open>Damage checks\<close>

lemma draw_one_deck:
  "deck (players (draw p i (Suc 0)) i)
     = (if deck (players p i) = [] then [] else butlast (deck (players p i)))"
  by (simp add: draw_def)

lemma boost_choice_deck [simp]: "deck (boost_choice f ch pl) = deck pl"
  by (simp add: boost_choice_def split: option.splits)

lemma boost_choice_damageZone [simp]: "damageZone (boost_choice f ch pl) = damageZone pl"
  by (simp add: boost_choice_def split: option.splits)

lemma applyTriggerEffect_deck:
  assumes "applyTriggerEffect t i rl (p, k) = Inr (p', k')"
  shows "deck (players p' i) = deck (players p i)
       \<or> deck (players p' i) = butlast (deck (players p i))"
  using assms
  by (auto simp: applyTriggerEffect_def Let_def draw_one_deck split: if_splits option.splits)

lemma damageCheckOnce_empty:
  "deck (players (fst st) d) = [] \<Longrightarrow> damageCheckOnce d rl st = Inr st"
  by (simp add: damageCheckOnce_def Let_def)

lemma damageCheckOnce_moves_top:
  assumes ne: "deck (players (fst st) d) \<noteq> []"
    and r: "damageCheckOnce d rl st = Inr st'"
  shows "damageZone (players (fst st') d) \<noteq> []
       \<and> last (damageZone (players (fst st') d)) = last (deck (players (fst st) d))
       \<and> length (deck (players (fst st') d)) < length (deck (players (fst st) d))"
proof -
  let ?pl = "players (fst st) d"
  let ?p1 = "set_player (fst st) d (?pl\<lparr>deck := butlast (deck ?pl)\<rparr>)"
  let ?c = "last (deck ?pl)"
  from r ne obtain p2 asked where
    tr: "(case trigger ?c of
            None \<Rightarrow> Inr (?p1, snd st)
          | Some t \<Rightarrow> if t \<noteq> [] then applyTriggerEffect t d rl (?p1, snd st) else Inr (?p1, snd st))
         = Inr (p2, asked)"
    and st': "st' = (set_player p2 d ((players p2 d)\<lparr>damageZone := damageZone (players p2 d) @ [?c]\<rparr>),
                     asked)"
    by (auto simp: damageCheckOnce_def Let_def split: sum.splits prod.splits)
  have "deck (players p2 d) = butlast (deck ?pl)
      \<or> deck (players p2 d) = butlast (butlast (deck ?pl))"
  proof (cases "trigger ?c")
    case None
    with tr show ?thesis by auto
  next
    case (Some t)
    show ?thesis
    proof (cases "t = []")
      case True
      with tr Some show ?thesis by auto
    next
      case False
      with tr Some have "applyTriggerEffect t d rl (?p1, snd st) = Inr (p2, asked)" by simp
      from applyTriggerEffect_deck[OF this] show ?thesis by simp
    qed
  qed
  then have "length (deck (players p2 d)) < length (deck ?pl)"
    using ne by (auto simp: length_greater_0_conv[symmetric] simp del: length_greater_0_conv)
  then show ?thesis by (simp add: st')
qed

lemma damageCheckOnce_plain:
  assumes "deck (players p d) \<noteq> []" and "\<not> truthy_str (trigger (last (deck (players p d))))"
  shows "damageCheckOnce d rl (p, k)
         = Inr (set_player p d
                  ((players p d)\<lparr>deck := butlast (deck (players p d)),
                                 damageZone := damageZone (players p d) @ [last (deck (players p d))]\<rparr>),
                k)"
  using assms
  by (auto simp: damageCheckOnce_def Let_def truthy_str_def set_player_def split: option.splits)

lemma damageCheck_plain:
  assumes "list_all (\<lambda>c. \<not> truthy_str (trigger c)) (deck (players p d))"
  shows "damageCheck d n rl (p, k)
         = Inr (set_player p d
                  ((players p d)\<lparr>deck := rev (drop n (rev (deck (players p d)))),
                                 damageZone := damageZone (players p d)
                                                @ take n (rev (deck (players p d)))\<rparr>),
                k)"
  using assms
proof (induction n arbitrary: p)
  case 0
  then show ?case by (simp add: set_player_same)
next
  case (Suc n)
  let ?pl = "players p d"
  show ?case
  proof (cases "deck ?pl = []")
    case True
    then have once: "damageCheckOnce d rl (p, k) = Inr (p, k)"
      using damageCheckOnce_empty[of "(p, k)" d rl] by simp
    from True Suc.prems have "list_all (\<lambda>c. \<not> truthy_str (trigger c)) (deck (players p d))" by simp
    from Suc.IH[OF this] True once show ?thesis by simp
  next
    case False
    then have "deck ?pl = butlast (deck ?pl) @ [last (deck ?pl)]" by simp
    then have "rev (deck ?pl) = rev (butlast (deck ?pl) @ [last (deck ?pl)])" by simp
    then have rv: "rev (deck ?pl) = last (deck ?pl) # rev (butlast (deck ?pl))" by simp
    from False Suc.prems have nt: "\<not> truthy_str (trigger (last (deck ?pl)))"
      by (simp add: list_all_iff)
    let ?p1 = "set_player p d (?pl\<lparr>deck := butlast (deck ?pl),
                                    damageZone := damageZone ?pl @ [last (deck ?pl)]\<rparr>)"
    have once: "damageCheckOnce d rl (p, k) = Inr (?p1, k)"
      by (rule damageCheckOnce_plain[OF False nt])
    have "list_all (\<lambda>c. \<not> truthy_str (trigger c)) (deck (players ?p1 d))"
      using Suc.prems by (auto simp: list_all_iff dest: in_set_butlastD)
    from Suc.IH[OF this] once show ?thesis
      by (simp add: rv set_player_def)
  qed
qed

lemma pass_raised: "(pass d rl ^^ m) (Inl e) = Inl e"
  by (induction m) (simp_all add: pass_def)

lemma damageCheck_passes: "damageCheck d m rl st = (pass d rl ^^ m) (Inr st)"
proof (induction m arbitrary: st)
  case 0
  then show ?case by simp
next
  case (Suc m)
  show ?case
  proof (cases "damageCheckOnce d rl st")
    case (Inl e)
    then have "pass d rl (Inr st) = Inl e" by (simp add: pass_def)
    with Inl show ?thesis by (simp add: funpow_swap1 pass_raised)
  next
    case (Inr st')
    then have "pass d rl (Inr st) = Inr st'" by (simp add: pass_def)
    with Inr show ?thesis by (simp add: funpow_swap1 Suc)
  qed
qed

lemma damageCheckOnce_no_trigger:
  assumes "deck (players s d) \<noteq> []" and "\<not> truthy_str (trigger (last (deck (players s d))))"
  shows "damageCheckOnce d rl (s, k) = Inr (toDamage d (last (deck (players s d))) (popDeck d s), k)"
  using assms
  by (auto simp: damageCheckOnce_def Let_def truthy_str_def toDamage_def popDeck_def
           split: option.splits)

lemma damageCheckOnce_trigger:
  assumes "deck (players s d) \<noteq> []" and "trigger (last (deck (players s d))) = Some t" and "t \<noteq> []"
  shows "damageCheckOnce d rl (s, k)
         = (case applyTriggerEffect t d rl (popDeck d s, k) of
              Inl e \<Rightarrow> Inl e
            | Inr (s', k') \<Rightarrow> Inr (toDamage d (last (deck (players s d))) s', k'))"
  using assms
  by (simp add: damageCheckOnce_def Let_def toDamage_def popDeck_def split: sum.splits prod.splits)


lemma applyTriggerEffect_returns: "\<exists>st'. applyTriggerEffect t i (Some ask) st = Inr st'"
  by (simp add: applyTriggerEffect_def Let_def)

lemma damageCheckOnce_returns: "\<exists>st'. damageCheckOnce d (Some ask) st = Inr st'"
proof -
  let ?pl = "players (fst st) d"
  let ?p1 = "set_player (fst st) d (?pl\<lparr>deck := butlast (deck ?pl)\<rparr>)"
  have "\<exists>r. (case trigger (last (deck ?pl)) of
            None \<Rightarrow> Inr (?p1, snd st)
          | Some t \<Rightarrow> if t \<noteq> [] then applyTriggerEffect t d (Some ask) (?p1, snd st)
                       else Inr (?p1, snd st)) = Inr r"
    using applyTriggerEffect_returns[of _ d ask "(?p1, snd st)"]
    by (auto split: option.splits)
  then obtain r where "(case trigger (last (deck ?pl)) of
            None \<Rightarrow> Inr (?p1, snd st)
          | Some t \<Rightarrow> if t \<noteq> [] then applyTriggerEffect t d (Some ask) (?p1, snd st)
                       else Inr (?p1, snd st)) = Inr r" ..
  then show ?thesis
    by (cases r) (simp add: damageCheckOnce_def Let_def)
qed

lemma damageCheck_returns: "\<exists>st'. damageCheck d n (Some ask) st = Inr st'"
proof (induction n arbitrary: st)
  case 0
  then show ?case by simp
next
  case (Suc n)
  from damageCheckOnce_returns[of d ask st] obtain st1 where
    "damageCheckOnce d (Some ask) st = Inr st1" ..
  with Suc[of st1] show ?case by simp
qed

subsection \<open>The generator\<close>

lemma guards_filter_guard:
  "filter isGuard (concat (map guardFromHand xs))
     = map (\<lambda>c. GUARD (uniqueId c) (shield c)) (filter (\<lambda>c. shield c \<noteq> None) xs)"
  by (induction xs) (auto simp: guardFromHand_def isGuard_def)

lemma guards_filter_intercept: "filter isIntercept (concat (map guardFromHand xs)) = []"
  by (induction xs) (auto simp: guardFromHand_def isIntercept_def)

lemma guards_count_pass: "count_list (concat (map guardFromHand xs)) PASS_GUARD_STEP = 0"
  by (induction xs) (auto simp: guardFromHand_def)

lemma intercepts_filter_guard: "filter isGuard (concat (map (interceptFrom b) cs)) = []"
  by (induction cs) (auto simp: interceptFrom_def isGuard_def split: option.splits)

lemma intercepts_filter_intercept:
  "filter isIntercept (concat (map (interceptFrom b) (filter (is_interceptor b) cs)))
     = List.map_filter (interceptOption b) cs"
  by (induction cs)
     (auto simp: interceptFrom_def isIntercept_def is_interceptor_def interceptOption_def
        List.map_filter_simps split: option.splits)

lemma intercepts_count_pass:
  "count_list (concat (map (interceptFrom b) cs)) PASS_GUARD_STEP = 0"
  by (induction cs) (auto simp: interceptFrom_def split: option.splits)

lemma guards_all: "list_all isGuard (concat (map guardFromHand xs))"
  by (induction xs) (auto simp: guardFromHand_def isGuard_def)

lemma intercepts_all: "list_all isIntercept (concat (map (interceptFrom b) cs))"
  by (induction cs) (auto simp: interceptFrom_def isIntercept_def split: option.splits)

lemma act_actions_no_call:
  assumes "getActActions host p pl = Inr ys"
  shows "CALL i uid tag \<notin> set ys"
proof -
  have "\<forall>y\<in>set ys. y \<noteq> CALL i uid tag"
  proof (rule for_each_all[OF assms[unfolded getActActions_def]])
    fix c zs
    assume inner: "for_each (\<lambda>eff.
           if is_act eff
           then (if once_per_turn eff \<and> function_index eff \<in> set (usedTurnlyEffects pl)
                 then Inr []
                 else (case holds host (condition eff) p of
                         Inl e \<Rightarrow> Inl e
                       | Inr ok \<Rightarrow> if ok then Inr [ACT (id_c c) eff] else Inr []))
           else Inr []) (implemented_effects c) = Inr zs"
    show "\<forall>z\<in>set zs. z \<noteq> CALL i uid tag"
      by (rule for_each_all[OF inner]) (auto split: if_splits sum.splits)
  qed
  then show ?thesis by blast
qed

lemma move_actions_no_call: "CALL i uid tag \<notin> set (getMoveActions p pl)"
  by (auto simp: getMoveActions_def)

lemma call_actions_shape:
  assumes "CALL i uid tag \<in> set (getCallActions p pl)"
  shows "i = None \<and> (\<exists>circle. getCircle tag = Inr circle)"
proof -
  from assms obtain circle where "i = None" and "tag = circle_name circle"
    by (auto simp: getCallActions_def Let_def split: option.splits if_splits)
  with getCircle_circle_name[of circle] show ?thesis by blast
qed

subsection \<open>Determinization\<close>

lemma deal_mset:
  "mset (fst (deal n h pool)) + mset (snd (deal n h pool)) = mset h + mset pool"
proof (induction n h pool rule: deal.induct)
  case (1 n newHand finalPool)
  show ?case
  proof (cases "length newHand < n \<and> length finalPool > 0")
    case True
    then have ne: "finalPool \<noteq> []" by auto
    have step: "deal n newHand finalPool = deal n (newHand @ [last finalPool]) (butlast finalPool)"
      using True by (subst deal.simps) simp
    have "mset (butlast finalPool @ [last finalPool]) = mset finalPool"
      using ne by simp
    then have "mset (butlast finalPool) + {#last finalPool#} = mset finalPool"
      by simp
    with 1[OF True] show ?thesis
      by (simp add: step ac_simps)
  next
    case False
    then have "deal n newHand finalPool = (newHand, finalPool)"
      by (subst deal.simps) auto
    then show ?thesis by simp
  qed
qed

lemma heal_is_trigger: "is_heal c \<Longrightarrow> is_trigger c"
  by (simp add: is_heal_def is_trigger_def truthy_str_def)

lemma pool_partition:
  "mset (filter is_heal xs) + mset (filter (\<lambda>c. is_trigger c \<and> \<not> is_heal c) xs)
   + mset (filter (\<lambda>c. is_sentinel c \<and> \<not> is_trigger c) xs)
   + mset (filter (\<lambda>c. \<not> is_trigger c \<and> \<not> is_sentinel c) xs) = mset xs"
  by (induction xs) (auto dest: heal_is_trigger)

lemma public_partition:
  "mset (filter isPublic xs) + mset (filter (\<lambda>c. \<not> isPublic c) xs) = mset xs"
  by (induction xs) auto

lemma merged_pool_mset:
  assumes perm: "\<And>k xs. mset (sh k xs) = mset xs"
  shows "mset (sh k (drop a A @ drop b B @ drop c C @ N @ take a A @ take b B @ take c C))
         = mset A + mset B + mset C + mset N"
proof -
  have "mset (sh k (drop a A @ drop b B @ drop c C @ N @ take a A @ take b B @ take c C))
        = (mset (drop a A) + mset (take a A)) + (mset (drop b B) + mset (take b B))
          + (mset (drop c C) + mset (take c C)) + mset N"
    by (simp add: perm)
  then show ?thesis by (simp only: take_drop_mset)
qed

lemma finalPool_mset:
  assumes perm: "\<And>k xs. mset (sh k xs) = mset xs"
  shows "mset (finalPool sh opp) = mset (unknownPool opp)"
  unfolding finalPool_def Let_def
  by (simp only: merged_pool_mset[where sh = sh, OF perm]) (simp only: perm pool_partition)

lemma determinize_opponent:
  assumes perm: "\<And>k xs. mset (sh k xs) = mset xs"
  shows "\<exists>h d. players (determinize sh s) (other (currentPlayerIndex s))
              = (players s (other (currentPlayerIndex s)))\<lparr>hand := h, deck := d\<rparr>
           \<and> mset (h @ d) = mset (hand (players s (other (currentPlayerIndex s)))
                                   @ deck (players s (other (currentPlayerIndex s))))"
proof -
  let ?o = "players s (other (currentPlayerIndex s))"
  let ?h = "fst (deal (length (hand ?o)) (filter isPublic (hand ?o)) (finalPool sh ?o))"
  let ?d = "snd (deal (length (hand ?o)) (filter isPublic (hand ?o)) (finalPool sh ?o))"
  have det: "players (determinize sh s) (other (currentPlayerIndex s)) = ?o\<lparr>hand := ?h, deck := ?d\<rparr>"
    by (simp add: determinize_def cloneDeep_def set_player_def Let_def)
  have "mset (?h @ ?d) = mset (filter isPublic (hand ?o)) + mset (finalPool sh ?o)"
    using deal_mset[of "length (hand ?o)" "filter isPublic (hand ?o)" "finalPool sh ?o"] by simp
  also have "\<dots> = (mset (filter isPublic (hand ?o)) + mset (filter (\<lambda>c. \<not> isPublic c) (hand ?o)))
                   + mset (deck ?o)"
    by (simp add: finalPool_mset[where sh = sh, OF perm] unknownPool_def)
  also have "\<dots> = mset (hand ?o @ deck ?o)"
    by (simp only: public_partition mset_append)
  finally have "mset (?h @ ?d) = mset (hand ?o @ deck ?o)" .
  with det show ?thesis by blast
qed

section \<open>Claims\<close>

text \<open>
  C1. The claim: a structurally invalid action (a CALL with a bad or missing hand index, a
  GUARD or RIDE whose card is not there, any action naming an unknown circle) makes
  \<^verbatim>\<open>applyAction\<close> return the input state unchanged with a report, and never throw.
  The code does not do that for an unknown circle: \<^verbatim>\<open>Board.getCircle\<close> raises, no
  applier catches it, and the test \<^verbatim>\<open>!targetCircle\<close> that was meant to reject the
  action is never reached. Here a CALL of the card at hand index 0 onto the circle
  \<^verbatim>\<open>R9\<close> raises out of \<^verbatim>\<open>applyAction\<close>.
\<close>

theorem C1_unknown_circle_throws:
  "applyAction host rnd callState (CALL (Some 0) ''u1'' ''R9'')
     = Threw (Error ''Circle not found'') callState"
  by (simp add: lift_def applyCall_def callState_def cloneDeep_def set_player_def
        newParty_def newPlayer_def getCircle_def nth_opt_def)

text \<open>
  C2. The claim: \<^verbatim>\<open>applyAction\<close> never mutates anything reachable from the input
  state. The code does when \<^verbatim>\<open>applyRide\<close> rejects the action: it returns the input
  object, and the tail of \<^verbatim>\<open>applyAction\<close> then assigns \<^verbatim>\<open>nextPhase\<close> on that
  object and runs \<^verbatim>\<open>processEvents\<close> on it. Here a RIDE of a card that is not in the
  hand, in the ride phase, returns the input object with \<^verbatim>\<open>phase\<close> and
  \<^verbatim>\<open>nextPhase\<close> set to \<^verbatim>\<open>main\<close>.
\<close>

theorem C2_rejected_ride_mutates_input:
  "phase rideState = ''ride'' \<and> nextPhase rideState = None
   \<and> applyAction host rnd rideState (RIDE ''c9'' ''hand'' None)
       = RetSame (rideState\<lparr>phase := ''main'', nextPhase := Some ''main''\<rparr>)
           [''ActionApplier Error: Card not found in hand for RIDE.'']
   \<and> input_after rideState (applyAction host rnd rideState (RIDE ''c9'' ''hand'' None))
       \<noteq> rideState"
  by (simp add: run_events_def applyRide_def rideState_def cloneDeep_def newParty_def
        newPlayer_def processEvents.simps)

text \<open>
  C3. In \<^verbatim>\<open>applyCloseStep\<close> the attack hits if and only if the recorded attacker power
  is at least the target unit's power plus its bonus power plus the sum of the shields in
  the guardian zone. The test of the code is \<open>attackHits\<close>; the close step takes the hit
  branch exactly when it holds, and against a rear-guard the outcome shows it: the target
  circle is empty afterwards on a hit and still holds the unit otherwise.
\<close>

theorem C3_hit_condition:
  assumes b: "currentBattle p = Some b"
    and t: "unit_at p (targetCircle b) = Some tgt"
  shows "(attackHits p b tgt \<longleftrightarrow>
            attackerPower b \<ge> num (power_c tgt) + bonusPower tgt
               + sum_list (map (\<lambda>c. num (shield c))
                    (guardianZone (players p (other (currentPlayerIndex p))))))
       \<and> applyCloseStep p rl
           = (case (if attackHits p b tgt then resolveHit p b tgt rl else Inr p) of
                Inl e \<Rightarrow> Inl e
              | Inr p1 \<Rightarrow> Inr (endOfBattle p1))
       \<and> (snd (targetCircle b) \<noteq> V \<longrightarrow>
            (\<exists>q. applyCloseStep p rl = Inr q
               \<and> (if attackHits p b tgt then unit_at q (targetCircle b) = None
                   else unit_at q (targetCircle b) = Some tgt)))"
proof (intro conjI impI)
  show "attackHits p b tgt \<longleftrightarrow>
            attackerPower b \<ge> num (power_c tgt) + bonusPower tgt
               + sum_list (map (\<lambda>c. num (shield c))
                    (guardianZone (players p (other (currentPlayerIndex p)))))"
    by (simp add: attackHits_def totalShield_sum Let_def)
  show eq: "applyCloseStep p rl
           = (case (if attackHits p b tgt then resolveHit p b tgt rl else Inr p) of
                Inl e \<Rightarrow> Inl e
              | Inr p1 \<Rightarrow> Inr (endOfBattle p1))"
    using b t by (simp add: applyCloseStep_def cloneDeep_def)
  assume rg: "snd (targetCircle b) \<noteq> V"
  show "\<exists>q. applyCloseStep p rl = Inr q
               \<and> (if attackHits p b tgt then unit_at q (targetCircle b) = None
                   else unit_at q (targetCircle b) = Some tgt)"
    using rg t by (simp add: eq resolveHit_def circle_name_V unit_at_endOfBattle unit_at_retire)
qed

text \<open>
  C3, at the three inputs of the claim: attacker 12000 against target 11000 without
  shield hits, 10000 against 11000 does not, 11000 against 11000 hits.
\<close>

theorem C3_hit_condition_witness:
  "(\<exists>q. applyCloseStep (rearBattle 12000) None = Inr q \<and> unit_at q (P1, R2) = None)
   \<and> (\<exists>q. applyCloseStep (rearBattle 10000) None = Inr q \<and> unit_at q (P1, R2) = Some defender)
   \<and> (\<exists>q. applyCloseStep (rearBattle 11000) None = Inr q \<and> unit_at q (P1, R2) = None)"
proof -
  let ?b = "\<lambda>ap. \<lparr>attackerCircle = (P0, R1), targetCircle = (P1, R2), attackerPower = ap\<rparr>"
  have b: "\<And>ap. currentBattle (rearBattle ap) = Some (?b ap)"
    by (simp add: rearBattle_def)
  have t: "\<And>ap. unit_at (rearBattle ap) (targetCircle (?b ap)) = Some defender"
    by (simp add: rearBattle_def unit_at_def set_player_def emptyBoard_def newPlayer_def)
  have g: "\<And>ap. guardianZone (players (rearBattle ap) (other (currentPlayerIndex (rearBattle ap)))) = []"
    by (simp add: rearBattle_def set_player_def newParty_def newPlayer_def)
  have pw: "num (power_c defender) + bonusPower defender = 11000"
    by (simp add: defender_def newCard_def)
  have w: "\<exists>q. applyCloseStep (rearBattle ap) None = Inr q
              \<and> (if ap \<ge> 11000 then unit_at q (P1, R2) = None
                  else unit_at q (P1, R2) = Some defender)" for ap
  proof -
    from C3_hit_condition[OF b t, of ap None, THEN conjunct1]
    have 1: "attackHits (rearBattle ap) (?b ap) defender \<longleftrightarrow> ap \<ge> 11000"
      by (simp add: g pw)
    from C3_hit_condition[OF b t, of ap None, THEN conjunct2, THEN conjunct2]
    have 2: "\<exists>q. applyCloseStep (rearBattle ap) None = Inr q
               \<and> (if attackHits (rearBattle ap) (?b ap) defender
                   then unit_at q (P1, R2) = None else unit_at q (P1, R2) = Some defender)"
      by (auto split: if_splits)
    from 2 show ?thesis unfolding 1 .
  qed
  from w[of 12000] w[of 10000] w[of 11000] show ?thesis by simp
qed

text \<open>
  C4, as stated, fails: the claim has every close step that hits the vanguard perform
  critical plus bonus critical damage checks, each of which moves the top card of the
  defender's deck to the damage zone. The code runs \<^verbatim>\<open>damageCheck\<close> under
  \<^verbatim>\<open>if (rl)\<close>: without a readline interface a hit on the vanguard checks nothing.
  And a pass of \<^verbatim>\<open>damageCheck\<close> runs under \<^verbatim>\<open>if (player.deck.length > 0)\<close>: with
  a readline interface and an empty deck no card reaches the damage zone. In both battles
  below the attack hits the vanguard with critical 1 and the defender's damage zone is
  empty afterwards.
\<close>

theorem C4_hit_on_vanguard_without_damage:
  "currentBattle vanguardBattle
     = Some \<lparr>attackerCircle = (P0, V), targetCircle = (P1, V), attackerPower = 12000\<rparr>
   \<and> unit_at vanguardBattle (P1, V) = Some defender
   \<and> attackHits vanguardBattle
        \<lparr>attackerCircle = (P0, V), targetCircle = (P1, V), attackerPower = 12000\<rparr> defender
   \<and> unit_at vanguardBattle (P0, V) = Some striker
   \<and> critical striker + bonusCritical striker = 1
   \<and> deck (players vanguardBattle P1) = [alpha, beta]
   \<and> damageZone (players vanguardBattle P1) = []
   \<and> applyCloseStep vanguardBattle None = Inr (endOfBattle vanguardBattle)
   \<and> deck (players (endOfBattle vanguardBattle) P1) = [alpha, beta]
   \<and> damageZone (players (endOfBattle vanguardBattle) P1) = []
   \<and> currentBattle emptyDeckBattle
     = Some \<lparr>attackerCircle = (P0, V), targetCircle = (P1, V), attackerPower = 12000\<rparr>
   \<and> unit_at emptyDeckBattle (P1, V) = Some defender
   \<and> attackHits emptyDeckBattle
        \<lparr>attackerCircle = (P0, V), targetCircle = (P1, V), attackerPower = 12000\<rparr> defender
   \<and> unit_at emptyDeckBattle (P0, V) = Some striker
   \<and> deck (players emptyDeckBattle P1) = []
   \<and> damageZone (players emptyDeckBattle P1) = []
   \<and> applyCloseStep emptyDeckBattle (Some silent) = Inr (endOfBattle emptyDeckBattle)
   \<and> damageZone (players (endOfBattle emptyDeckBattle) P1) = []"
  by (simp add: vanguardBattle_def emptyDeckBattle_def applyCloseStep_def cloneDeep_def unit_at_def
        set_player_def attackHits_def totalShield_def resolveHit_def endOfBattle_def newParty_def
        newPlayer_def emptyBoard_def defender_def striker_def newCard_def damageCheckOnce_def Let_def)

text \<open>
  C4, amended. On a hit (\<open>attackHits\<close>) of a battle whose target circle holds a unit:

    \<^item> against the circle V, with a readline interface, the close step runs
      \<^verbatim>\<open>damageCheck\<close> for the defending player with the attacker's critical plus bonus
      critical as the number of passes (it returns, and the battle ends from the state it
      leaves); without a readline interface it runs none;

    \<^item> against any other circle the close step empties the target circle and the unit goes
      to the defender's drop zone, before the guardians;

    \<^item> \<^verbatim>\<open>damageCheck\<close> with \<open>m\<close> passes is the pass iterated \<open>m\<close> times;

    \<^item> a pass on an empty deck changes nothing; a pass on a deck whose top card has no
      trigger takes that card off the deck and appends it to the damage zone; a pass on a
      deck whose top card has a trigger takes the card off the deck, resolves the trigger
      (\<^verbatim>\<open>applyTriggerEffect\<close>) in the state so reached, and appends the card to the
      damage zone of the state the resolution leaves, or raises what the resolution raises;

    \<^item> whatever the trigger did, after a pass on a non-empty deck the card that was on top
      is the last card of the damage zone and the deck is shorter;

    \<^item> when no card of the deck has a trigger, \<open>m\<close> passes move the top \<open>m\<close> cards (all
      of them if there are fewer) to the damage zone in the order they are revealed.
\<close>

theorem C4_hit_effects:
  fixes p :: party and d :: pidx
  defines "d \<equiv> other (currentPlayerIndex p)"
  assumes b: "currentBattle p = Some b"
    and t: "unit_at p (targetCircle b) = Some tgt"
    and hit: "attackHits p b tgt"
  shows "(snd (targetCircle b) = V \<and> unit_at p (attackerCircle b) = Some atk \<longrightarrow>
            (\<exists>checked. damageCheck d (nat (critical atk + bonusCritical atk)) (Some ask) (p, 0)
                          = Inr checked
                      \<and> applyCloseStep p (Some ask) = Inr (endOfBattle (fst checked)))
            \<and> applyCloseStep p None = Inr (endOfBattle p))
       \<and> (snd (targetCircle b) \<noteq> V \<longrightarrow>
            (\<exists>q. applyCloseStep p rl = Inr q
                \<and> unit_at q (targetCircle b) = None
                \<and> dropZone (players q d) = dropZone (players p d) @ [tgt] @ guardianZone (players p d)))
       \<and> damageCheck d m rl (s, k) = (pass d rl ^^ m) (Inr (s, k))
       \<and> (deck (players s d) = [] \<longrightarrow> damageCheckOnce d rl (s, k) = Inr (s, k))
       \<and> (deck (players s d) \<noteq> [] \<and> \<not> truthy_str (trigger (last (deck (players s d)))) \<longrightarrow>
            damageCheckOnce d rl (s, k)
              = Inr (toDamage d (last (deck (players s d))) (popDeck d s), k))
       \<and> (deck (players s d) \<noteq> [] \<and> trigger (last (deck (players s d))) = Some tr \<and> tr \<noteq> [] \<longrightarrow>
            damageCheckOnce d rl (s, k)
              = (case applyTriggerEffect tr d rl (popDeck d s, k) of
                   Inl e \<Rightarrow> Inl e
                 | Inr (s', k') \<Rightarrow> Inr (toDamage d (last (deck (players s d))) s', k')))
       \<and> (deck (players s d) \<noteq> [] \<and> damageCheckOnce d rl (s, k) = Inr st' \<longrightarrow>
            damageZone (players (fst st') d) \<noteq> []
            \<and> last (damageZone (players (fst st') d)) = last (deck (players s d))
            \<and> length (deck (players (fst st') d)) < length (deck (players s d)))
       \<and> (list_all (\<lambda>c. \<not> truthy_str (trigger c)) (deck (players s d)) \<longrightarrow>
            damageCheck d m rl (s, k)
              = Inr (set_player s d
                       ((players s d)\<lparr>deck := rev (drop m (rev (deck (players s d)))),
                                      damageZone := damageZone (players s d)
                                                     @ take m (rev (deck (players s d)))\<rparr>), k))"
proof -
  have eq: "\<And>r. applyCloseStep p r
                 = (case resolveHit p b tgt r of Inl e \<Rightarrow> Inl e | Inr p1 \<Rightarrow> Inr (endOfBattle p1))"
    using b t hit by (simp add: applyCloseStep_def cloneDeep_def)
  have 1: "snd (targetCircle b) = V \<and> unit_at p (attackerCircle b) = Some atk \<longrightarrow>
            (\<exists>checked. damageCheck d (nat (critical atk + bonusCritical atk)) (Some ask) (p, 0)
                          = Inr checked
                      \<and> applyCloseStep p (Some ask) = Inr (endOfBattle (fst checked)))
            \<and> applyCloseStep p None = Inr (endOfBattle p)"
  proof (intro impI conjI)
    assume v: "snd (targetCircle b) = V \<and> unit_at p (attackerCircle b) = Some atk"
    from damageCheck_returns[of d "nat (critical atk + bonusCritical atk)" ask "(p, 0)"]
    obtain checked where
      dc: "damageCheck d (nat (critical atk + bonusCritical atk)) (Some ask) (p, 0) = Inr checked" ..
    have "applyCloseStep p (Some ask) = Inr (endOfBattle (fst checked))"
      using v dc by (simp add: eq resolveHit_def d_def Let_def)
    with dc
    show "\<exists>checked. damageCheck d (nat (critical atk + bonusCritical atk)) (Some ask) (p, 0)
                          = Inr checked
                      \<and> applyCloseStep p (Some ask) = Inr (endOfBattle (fst checked))"
      by blast
    show "applyCloseStep p None = Inr (endOfBattle p)"
      using v by (simp add: eq resolveHit_def)
  qed
  have 2: "snd (targetCircle b) \<noteq> V \<longrightarrow>
            (\<exists>q. applyCloseStep p rl = Inr q
                \<and> unit_at q (targetCircle b) = None
                \<and> dropZone (players q d) = dropZone (players p d) @ [tgt] @ guardianZone (players p d))"
    by (simp add: eq resolveHit_def circle_name_V unit_at_endOfBattle unit_at_retire d_def
          dropZone_retire_endOfBattle)
  have 3: "damageCheck d m rl (s, k) = (pass d rl ^^ m) (Inr (s, k))"
    by (rule damageCheck_passes)
  have 4: "deck (players s d) = [] \<longrightarrow> damageCheckOnce d rl (s, k) = Inr (s, k)"
    using damageCheckOnce_empty[of "(s, k)" d rl] by simp
  have 5: "deck (players s d) \<noteq> [] \<and> \<not> truthy_str (trigger (last (deck (players s d)))) \<longrightarrow>
            damageCheckOnce d rl (s, k)
              = Inr (toDamage d (last (deck (players s d))) (popDeck d s), k)"
    using damageCheckOnce_no_trigger[of s d rl k] by blast
  have 6: "deck (players s d) \<noteq> [] \<and> trigger (last (deck (players s d))) = Some tr \<and> tr \<noteq> [] \<longrightarrow>
            damageCheckOnce d rl (s, k)
              = (case applyTriggerEffect tr d rl (popDeck d s, k) of
                   Inl e \<Rightarrow> Inl e
                 | Inr (s', k') \<Rightarrow> Inr (toDamage d (last (deck (players s d))) s', k'))"
    using damageCheckOnce_trigger[of s d tr rl k] by blast
  have 7: "deck (players s d) \<noteq> [] \<and> damageCheckOnce d rl (s, k) = Inr st' \<longrightarrow>
            damageZone (players (fst st') d) \<noteq> []
            \<and> last (damageZone (players (fst st') d)) = last (deck (players s d))
            \<and> length (deck (players (fst st') d)) < length (deck (players s d))"
    using damageCheckOnce_moves_top[of "(s, k)" d rl st'] by simp
  have 8: "list_all (\<lambda>c. \<not> truthy_str (trigger c)) (deck (players s d)) \<longrightarrow>
            damageCheck d m rl (s, k)
              = Inr (set_player s d
                       ((players s d)\<lparr>deck := rev (drop m (rev (deck (players s d)))),
                                      damageZone := damageZone (players s d)
                                                     @ take m (rev (deck (players s d)))\<rparr>), k)"
    using damageCheck_plain[of s d m rl k] by blast
  from 1 2 3 4 5 6 7 8 show ?thesis by blast
qed

text \<open>
  C4, amended, at concrete battles: the vanguard battle with a readline interface moves
  \<open>beta\<close>, the top card, to the damage zone; without one nothing is checked; the
  rear-guard battle retires the target to the drop zone; a pass on the empty deck changes
  nothing; and a pass that reveals a heal trigger first gives the chosen unit, the
  vanguard, 10000 power and heals \<open>beta\<close>, the damage taken before, then puts the heal
  trigger itself in the damage zone.
\<close>

theorem C4_hit_effects_witness:
  "(\<exists>q. applyCloseStep vanguardBattle (Some silent) = Inr q
        \<and> deck (players q P1) = [alpha] \<and> damageZone (players q P1) = [beta])
   \<and> applyCloseStep vanguardBattle None = Inr (endOfBattle vanguardBattle)
   \<and> (\<exists>q. applyCloseStep (rearBattle 12000) None = Inr q
        \<and> unit_at q (P1, R2) = None \<and> dropZone (players q P1) = [defender])
   \<and> damageCheck P1 2 (Some silent) (vanguardBattle, 0)
       = (pass P1 (Some silent) ^^ 2) (Inr (vanguardBattle, 0))
   \<and> damageCheckOnce P1 (Some silent) (emptyDeckBattle, 0) = Inr (emptyDeckBattle, 0)
   \<and> damageCheckOnce P1 (Some silent) (vanguardBattle, 0)
       = Inr (toDamage P1 beta (popDeck P1 vanguardBattle), 0)
   \<and> (\<exists>s'. damageCheckOnce P1 (Some firstUnit) (healBattle, 0) = Inr (s', 1)
          \<and> deck (players s' P1) = [alpha]
          \<and> damageZone (players s' P1) = [healCard]
          \<and> dropZone (players s' P1) = [beta]
          \<and> unit_at s' (P1, V) = Some (defender\<lparr>bonusPower := 10000\<rparr>))"
proof -
  let ?vb = "\<lparr>attackerCircle = (P0, V), targetCircle = (P1, V), attackerPower = 12000\<rparr>"
  let ?rb = "\<lparr>attackerCircle = (P0, R1), targetCircle = (P1, R2), attackerPower = 12000\<rparr>"
  have vb: "currentBattle vanguardBattle = Some ?vb"
    by (simp add: vanguardBattle_def)
  have vt: "unit_at vanguardBattle (targetCircle ?vb) = Some defender"
    by (simp add: vanguardBattle_def unit_at_def set_player_def emptyBoard_def)
  have va: "unit_at vanguardBattle (attackerCircle ?vb) = Some striker"
    by (simp add: vanguardBattle_def unit_at_def set_player_def emptyBoard_def)
  have vh: "attackHits vanguardBattle ?vb defender"
    by (simp add: attackHits_def vanguardBattle_def set_player_def totalShield_def newPlayer_def
          newParty_def defender_def newCard_def Let_def)
  have vd: "other (currentPlayerIndex vanguardBattle) = P1"
    by (simp add: vanguardBattle_def set_player_def newParty_def)
  have deck: "deck (players vanguardBattle P1) = [alpha, beta]"
    and dz: "damageZone (players vanguardBattle P1) = []"
    by (simp_all add: vanguardBattle_def set_player_def newPlayer_def)
  have crit: "nat (critical striker + bonusCritical striker) = Suc 0"
    by (simp add: striker_def newCard_def)
  have plain: "list_all (\<lambda>c. \<not> truthy_str (trigger c)) (deck (players vanguardBattle P1))"
    by (simp add: deck alpha_def beta_def newCard_def truthy_str_def)
  have nb: "\<not> truthy_str (trigger beta)"
    by (simp add: beta_def newCard_def truthy_str_def)
  note T = C4_hit_effects[OF vb vt vh, unfolded vd]
  note V = T[where atk = striker and ask = silent and rl = "Some silent" and m = "Suc 0" and k = 0
             and s = vanguardBattle]
  from V[THEN conjunct1] va
  have 1: "\<exists>checked. damageCheck P1 (Suc 0) (Some silent) (vanguardBattle, 0) = Inr checked
              \<and> applyCloseStep vanguardBattle (Some silent) = Inr (endOfBattle (fst checked))"
    and 2: "applyCloseStep vanguardBattle None = Inr (endOfBattle vanguardBattle)"
    by (simp_all add: crit)
  from V[THEN conjunct2, THEN conjunct2, THEN conjunct2, THEN conjunct2, THEN conjunct2,
         THEN conjunct2, THEN conjunct2] plain
  have 3: "damageCheck P1 (Suc 0) (Some silent) (vanguardBattle, 0)
        = Inr (set_player vanguardBattle P1
                 ((players vanguardBattle P1)\<lparr>deck := [alpha], damageZone := [beta]\<rparr>), 0)"
    by (simp add: deck dz)
  from 1 have "applyCloseStep vanguardBattle (Some silent)
        = Inr (endOfBattle (set_player vanguardBattle P1
                 ((players vanguardBattle P1)\<lparr>deck := [alpha], damageZone := [beta]\<rparr>)))"
    unfolding 3 by auto
  then have a: "\<exists>q. applyCloseStep vanguardBattle (Some silent) = Inr q
        \<and> deck (players q P1) = [alpha] \<and> damageZone (players q P1) = [beta]"
    by (simp add: endOfBattle_def vd set_player_def Let_def)
  have rb: "currentBattle (rearBattle 12000) = Some ?rb"
    by (simp add: rearBattle_def)
  have rt: "unit_at (rearBattle 12000) (targetCircle ?rb) = Some defender"
    by (simp add: rearBattle_def unit_at_def set_player_def emptyBoard_def)
  have rh: "attackHits (rearBattle 12000) ?rb defender"
    by (simp add: attackHits_def rearBattle_def set_player_def totalShield_def newPlayer_def
          newParty_def defender_def newCard_def Let_def)
  have rd: "other (currentPlayerIndex (rearBattle 12000)) = P1"
    by (simp add: rearBattle_def set_player_def newParty_def)
  have rz: "dropZone (players (rearBattle 12000) P1) = []"
    and rg: "guardianZone (players (rearBattle 12000) P1) = []"
    by (simp_all add: rearBattle_def set_player_def newPlayer_def)
  from C4_hit_effects[OF rb rt rh, unfolded rd, where rl = None, THEN conjunct2, THEN conjunct1]
  have d: "\<exists>q. applyCloseStep (rearBattle 12000) None = Inr q
        \<and> unit_at q (P1, R2) = None \<and> dropZone (players q P1) = [defender]"
    by (simp add: rz rg)
  from T[where rl = "Some silent" and m = 2 and k = 0 and s = vanguardBattle,
         THEN conjunct2, THEN conjunct2, THEN conjunct1]
  have e: "damageCheck P1 2 (Some silent) (vanguardBattle, 0)
       = (pass P1 (Some silent) ^^ 2) (Inr (vanguardBattle, 0))" .
  have ed: "deck (players emptyDeckBattle P1) = []"
    by (simp add: emptyDeckBattle_def set_player_def)
  from T[where rl = "Some silent" and k = 0 and s = emptyDeckBattle,
         THEN conjunct2, THEN conjunct2, THEN conjunct2, THEN conjunct1] ed
  have f: "damageCheckOnce P1 (Some silent) (emptyDeckBattle, 0) = Inr (emptyDeckBattle, 0)"
    by simp
  from V[THEN conjunct2, THEN conjunct2, THEN conjunct2, THEN conjunct2, THEN conjunct1] nb
  have g: "damageCheckOnce P1 (Some silent) (vanguardBattle, 0)
       = Inr (toDamage P1 beta (popDeck P1 vanguardBattle), 0)"
    by (simp add: deck)
  have hd: "deck (players healBattle P1) = [alpha, healCard]"
    by (simp add: healBattle_def set_player_def)
  have ht: "trigger healCard = Some ''Heal''"
    by (simp add: healCard_def)
  have pl: "players (popDeck P1 healBattle) P1
        = newPlayer\<lparr>board := emptyBoard(V := Some defender), deck := [alpha], damageZone := [beta]\<rparr>"
    by (simp add: popDeck_def healBattle_def vanguardBattle_def set_player_def)
  have op: "damageZone (players (popDeck P1 healBattle) P0) = []"
    by (simp add: popDeck_def healBattle_def vanguardBattle_def set_player_def newPlayer_def)
  have units: "boardUnits (emptyBoard(V := Some defender)) = [V]"
    by (simp add: boardUnits_def frontRow_def backRow_def emptyBoard_def)
  have bp: "bonusPower defender = 0"
    by (simp add: defender_def newCard_def)
  have ch: "chosen [V] (firstUnit 0) = Some V"
    by (simp add: chosen_def firstUnit_def)
  have resolve: "applyTriggerEffect ''Heal'' P1 (Some firstUnit) (popDeck P1 healBattle, 0)
        = Inr (set_player (popDeck P1 healBattle) P1
                 (newPlayer
                    \<lparr>board := emptyBoard(V := Some (defender\<lparr>bonusPower := 10000\<rparr>)),
                     deck := [alpha], damageZone := [], dropZone := [beta]\<rparr>), 1)"
    apply (simp add: applyTriggerEffect_def pl op units ch bp boost_choice_def add_power_def Let_def)
    apply (simp add: set_player_def newPlayer_def)
    done
  from T[where rl = "Some firstUnit" and k = 0 and s = healBattle and tr = "''Heal''",
         THEN conjunct2, THEN conjunct2, THEN conjunct2, THEN conjunct2, THEN conjunct2,
         THEN conjunct1] ht
  have "damageCheckOnce P1 (Some firstUnit) (healBattle, 0)
        = Inr (toDamage P1 healCard
                 (set_player (popDeck P1 healBattle) P1
                    (newPlayer
                       \<lparr>board := emptyBoard(V := Some (defender\<lparr>bonusPower := 10000\<rparr>)),
                        deck := [alpha], damageZone := [], dropZone := [beta]\<rparr>)), 1)"
    by (simp add: hd resolve)
  then have h: "\<exists>s'. damageCheckOnce P1 (Some firstUnit) (healBattle, 0) = Inr (s', 1)
          \<and> deck (players s' P1) = [alpha]
          \<and> damageZone (players s' P1) = [healCard]
          \<and> dropZone (players s' P1) = [beta]
          \<and> unit_at s' (P1, V) = Some (defender\<lparr>bonusPower := 10000\<rparr>)"
    by (simp add: toDamage_def set_player_def unit_at_def)
  from a 2 d e f g h show ?thesis by blast
qed

text \<open>
  C5. The claim: backpropagation updates every node on the path from the expanded node
  back to the root, the root included. The loop of \<^verbatim>\<open>_backpropagate\<close> starts with
  \<^verbatim>\<open>parent = node.parent\<close> and steps with \<^verbatim>\<open>parent = parent.parent; current = parent\<close>,
  which jumps over the node's parent. For a child of the root the root is left as it was;
  for the root itself the step raises TypeError after the update.
\<close>

theorem C5_backpropagate_skips_parent:
  "backpropagate [freshNode, freshNode] rollout
     = Inr [\<lparr>visits = 1, scoreData = rollout\<rparr>, freshNode]
   \<and> backpropagate [freshNode] rollout
     = Inl (TypeError ''Cannot read properties of null (reading parent)'',
            [\<lparr>visits = 1, scoreData = rollout\<rparr>])"
  by (simp add: backpropagate_def backpropagate_loop.simps parent_at_def accumulate_def
        freshNode_def rollout_def)

text \<open>
  C6. In \<^verbatim>\<open>processEvents\<close>, when the pending list of the head event (collected if the
  event had none) has a mandatory effect, the pass resolves the first mandatory entry, at
  position \<open>i\<close>: the procedure of the registry is called on the state in which that
  entry has already been taken out of the head event's list, and nothing else has (the
  list lost exactly that one entry, one mandatory entry fewer); the loop goes on from the
  state the procedure returns, or the exception leaves the state the procedure was called
  on.
\<close>

theorem C6_pop_then_invoke:
  assumes q: "eventQueue p = ev # rest"
    and pe: "pending_of host p ev = Inr pend"
    and m: "filter is_mandatory pend \<noteq> []"
  shows "\<exists>i. i < length pend \<and> is_mandatory (pend ! i) \<and> filter is_mandatory (take i pend) = []
      \<and> processEvents host p
          = (case callEffect (function_index (effect (pend ! i)))
                   (with_pending p ev rest (remove_at i pend)) (eventPayload (pend ! i)) of
               Inl e \<Rightarrow> Raised e (with_pending p ev rest (remove_at i pend))
             | Inr p' \<Rightarrow> processEvents host p')
      \<and> eventQueue (with_pending p ev rest (remove_at i pend))
          = ev\<lparr>pendingEffects := Some (remove_at i pend)\<rparr> # rest
      \<and> mset pend = add_mset (pend ! i) (mset (remove_at i pend))
      \<and> Suc (length (filter is_mandatory (remove_at i pend))) = length (filter is_mandatory pend)"
proof -
  from findIndex_exists[OF m] obtain i where fi: "findIndex is_mandatory pend = Some i" by blast
  from findIndex_Some[OF fi] have i: "i < length pend" and mi: "is_mandatory (pend ! i)" by auto
  have run: "processEvents host p
          = (case callEffect (function_index (effect (pend ! i)))
                   (with_pending p ev rest (remove_at i pend)) (eventPayload (pend ! i)) of
               Inl e \<Rightarrow> Raised e (with_pending p ev rest (remove_at i pend))
             | Inr p' \<Rightarrow> processEvents host p')"
    by (subst processEvents.simps) (simp add: q pe fi del: remove_at.simps)
  have hd: "eventQueue (with_pending p ev rest (remove_at i pend))
          = ev\<lparr>pendingEffects := Some (remove_at i pend)\<rparr> # rest"
    by (simp add: with_pending_def)
  from i mi filter_take_first[OF fi] run hd mset_remove_at[OF i]
       filter_remove_at[where P = is_mandatory, OF i mi]
  show ?thesis by blast
qed

text \<open>
  C6 at a concrete queue: the head event has an optional entry followed by a mandatory one;
  the mandatory entry, at position 1, is resolved, and its procedure sees a list that holds
  the optional entry only.
\<close>

theorem C6_pop_then_invoke_witness:
  "eventQueue eventState = [rideStartEvent]
   \<and> pending_of plainHost eventState rideStartEvent = Inr [optionalPending, mandatoryPending]
   \<and> filter is_mandatory [optionalPending, mandatoryPending] = [mandatoryPending]
   \<and> (\<exists>i. i < 2 \<and> [optionalPending, mandatoryPending] ! i = mandatoryPending
         \<and> remove_at i [optionalPending, mandatoryPending] = [optionalPending]
         \<and> processEvents plainHost eventState
             = (case callEffect 2
                      (with_pending eventState rideStartEvent [] [optionalPending])
                      (eventPayload mandatoryPending) of
                  Inl e \<Rightarrow> Raised e (with_pending eventState rideStartEvent [] [optionalPending])
                | Inr p' \<Rightarrow> processEvents plainHost p'))"
proof -
  have q: "eventQueue eventState = rideStartEvent # []"
    by (simp add: eventState_def)
  have pe: "pending_of plainHost eventState rideStartEvent = Inr [optionalPending, mandatoryPending]"
    by (simp add: pending_of_def rideStartEvent_def)
  have mo: "\<not> is_mandatory optionalPending" and mm: "is_mandatory mandatoryPending"
    by (simp_all add: is_mandatory_def optionalPending_def mandatoryPending_def chargeEffect_def)
  have m: "filter is_mandatory [optionalPending, mandatoryPending] \<noteq> []"
    using mm by simp
  from C6_pop_then_invoke[OF q pe m] obtain i where
    i: "i < length [optionalPending, mandatoryPending]"
    and mi: "is_mandatory ([optionalPending, mandatoryPending] ! i)"
    and run: "processEvents plainHost eventState
          = (case callEffect (function_index (effect ([optionalPending, mandatoryPending] ! i)))
                   (with_pending eventState rideStartEvent [] (remove_at i [optionalPending, mandatoryPending]))
                   (eventPayload ([optionalPending, mandatoryPending] ! i)) of
               Inl e \<Rightarrow> Raised e (with_pending eventState rideStartEvent []
                                    (remove_at i [optionalPending, mandatoryPending]))
             | Inr p' \<Rightarrow> processEvents plainHost p')"
    by blast
  from i mi mo have i1: "i = 1"
    by (cases i) auto
  have f: "function_index (effect mandatoryPending) = 2"
    by (simp add: mandatoryPending_def chargeEffect_def)
  from run have "processEvents plainHost eventState
             = (case callEffect 2
                      (with_pending eventState rideStartEvent [] [optionalPending])
                      (eventPayload mandatoryPending) of
                  Inl e \<Rightarrow> Raised e (with_pending eventState rideStartEvent [] [optionalPending])
                | Inr p' \<Rightarrow> processEvents plainHost p')"
    by (simp add: i1 f cong: sum.case_cong)
  with q pe mo mm i1 show ?thesis
    by (intro conjI exI[of _ 1]) simp_all
qed

text \<open>
  C7. Take a state in which the zones of the opponent (the player other than the current
  one) hold together exactly 4 heal triggers, 16 triggers and 4 cards with the Sentinel
  skill, and any run of \<^verbatim>\<open>_determinize\<close>, that is, any four rearrangements made by
  its shuffles. In the determinized state, the number of heal triggers in the opponent's
  hand and deck plus the number in the opponent's other zones is 4, and likewise 16 for
  triggers and 4 for Sentinels. (Determinization rearranges hand and deck among themselves
  and leaves every other zone alone, so the same holds for any choice of the other zones.)
\<close>

theorem C7_determinize_keeps_totals:
  fixes s :: party and sh :: "nat \<Rightarrow> card list \<Rightarrow> card list" and opp opp' :: player
  defines "opp \<equiv> players s (other (currentPlayerIndex s))"
    and "opp' \<equiv> players (determinize sh s) (other (currentPlayerIndex s))"
  assumes perm: "\<And>k xs. mset (sh k xs) = mset xs"
    and heals: "length (filter is_heal (hand opp @ deck opp @ otherZones opp)) = 4"
    and triggers: "length (filter is_trigger (hand opp @ deck opp @ otherZones opp)) = 16"
    and sentinels: "length (filter is_sentinel (hand opp @ deck opp @ otherZones opp)) = 4"
  shows "length (filter is_heal (hand opp' @ deck opp'))
           + length (filter is_heal (otherZones opp')) = 4
       \<and> length (filter is_trigger (hand opp' @ deck opp'))
           + length (filter is_trigger (otherZones opp')) = 16
       \<and> length (filter is_sentinel (hand opp' @ deck opp'))
           + length (filter is_sentinel (otherZones opp')) = 4"
proof -
  from determinize_opponent[where sh = sh and s = s, OF perm] obtain h d where
    eq: "opp' = opp\<lparr>hand := h, deck := d\<rparr>" and m: "mset (h @ d) = mset (hand opp @ deck opp)"
    unfolding opp_def opp'_def by blast
  have oz: "otherZones opp' = otherZones opp" by (simp add: eq otherZones_def)
  have hd: "hand opp' @ deck opp' = h @ d" by (simp add: eq)
  have c: "\<And>P. length (filter P (hand opp' @ deck opp')) = length (filter P (hand opp @ deck opp))"
    unfolding hd by (rule count_of_mset[OF m])
  have split: "\<And>P. length (filter P (hand opp @ deck opp @ otherZones opp))
                  = length (filter P (hand opp @ deck opp)) + length (filter P (otherZones opp))"
    by simp
  from heals triggers sentinels show ?thesis
    unfolding split c oz by simp
qed

text \<open>
  C7 at a concrete state, with every shuffle reversing its array.
\<close>

theorem C7_determinize_keeps_totals_witness:
  "length (filter is_heal (hand (players hiddenState P1) @ deck (players hiddenState P1)
                            @ otherZones (players hiddenState P1))) = 4
   \<and> length (filter is_trigger (hand (players hiddenState P1) @ deck (players hiddenState P1)
                            @ otherZones (players hiddenState P1))) = 16
   \<and> length (filter is_sentinel (hand (players hiddenState P1) @ deck (players hiddenState P1)
                            @ otherZones (players hiddenState P1))) = 4
   \<and> length (filter is_heal (hand (players (determinize (\<lambda>k. rev) hiddenState) P1)
                             @ deck (players (determinize (\<lambda>k. rev) hiddenState) P1)))
       + length (filter is_heal (otherZones (players (determinize (\<lambda>k. rev) hiddenState) P1))) = 4
   \<and> length (filter is_trigger (hand (players (determinize (\<lambda>k. rev) hiddenState) P1)
                             @ deck (players (determinize (\<lambda>k. rev) hiddenState) P1)))
       + length (filter is_trigger (otherZones (players (determinize (\<lambda>k. rev) hiddenState) P1))) = 16
   \<and> length (filter is_sentinel (hand (players (determinize (\<lambda>k. rev) hiddenState) P1)
                             @ deck (players (determinize (\<lambda>k. rev) hiddenState) P1)))
       + length (filter is_sentinel (otherZones (players (determinize (\<lambda>k. rev) hiddenState) P1))) = 4"
proof -
  have cp: "other (currentPlayerIndex hiddenState) = P1"
    by (simp add: hiddenState_def set_player_def newParty_def)
  have perm: "\<And>k xs. mset ((\<lambda>k. rev) k xs) = mset (xs :: card list)"
    by simp
  have z: "otherZones (players hiddenState P1) = []"
    by (simp add: hiddenState_def otherZones_def units_of_def newPlayer_def emptyBoard_def
          frontRow_def backRow_def)
  have hd: "hand (players hiddenState P1) @ deck (players hiddenState P1)
           = [critCard\<lparr>isPublic := True\<rparr>, sentinelCard, alpha]
             @ replicate 4 healCard @ replicate 11 critCard @ replicate 3 sentinelCard"
    by (simp add: hiddenState_def)
  have heals: "length (filter is_heal (hand (players hiddenState P1) @ deck (players hiddenState P1)
                            @ otherZones (players hiddenState P1))) = 4"
    unfolding z append_Nil2 hd
    by (simp add: is_heal_def healCard_def critCard_def sentinelCard_def alpha_def newCard_def)
  have triggers: "length (filter is_trigger (hand (players hiddenState P1) @ deck (players hiddenState P1)
                            @ otherZones (players hiddenState P1))) = 16"
    unfolding z append_Nil2 hd
    by (simp add: is_trigger_def truthy_str_def healCard_def critCard_def sentinelCard_def alpha_def newCard_def)
  have sentinels: "length (filter is_sentinel (hand (players hiddenState P1) @ deck (players hiddenState P1)
                            @ otherZones (players hiddenState P1))) = 4"
    unfolding z append_Nil2 hd
    by (simp add: is_sentinel_def healCard_def critCard_def sentinelCard_def alpha_def newCard_def)
  from C7_determinize_keeps_totals[where sh = "\<lambda>k. rev" and s = hiddenState, unfolded cp,
         OF perm heals triggers sentinels] heals triggers sentinels
  show ?thesis by blast
qed

text \<open>
  C8. The claim: an absent condition is true; every malformed shape is false with a report
  and never throws. The code evaluates the operands of a composite before it looks at its
  shape: a composite without a right operand takes \<^verbatim>\<open>undefined\<close> for it, which is
  "no condition", so \<^verbatim>\<open>[leaf, 'and']\<close> is true without a report when the leaf is; and
  a leaf whose field is not a string raises TypeError in \<^verbatim>\<open>getContextValue\<close>.
\<close>

theorem C8_malformed_condition_true_or_throws:
  "evaluateCondition host (JArr [indexIsZero, JStr ''and'']) newParty = Inr (True, [])
   \<and> evaluateCondition host (JArr [JNum 5, JStr ''==='', JNum 0]) newParty
       = Inl (TypeError ''path.split is not a function'')"
  by (simp add: evaluateCondition.simps evalLeaf_def getContextValue_def identical_def
        newParty_def newPlayer_def indexIsZero_def)

text \<open>
  C9. In phase \<^verbatim>\<open>guard\<close> the action generator returns a list with exactly one
  PASS_GUARD_STEP; its GUARD actions are, in order, one for each card in the defending
  player's hand whose shield is a number; its INTERCEPT actions are, in order, one for
  each front-row circle of the defending player whose unit is not resting and has the
  Intercept skill; and it has no other action.
\<close>

theorem C9_guard_actions:
  assumes "phase p = ''guard''"
  shows "\<exists>acts. getPossibleActions host p = Inr acts
     \<and> count_list acts PASS_GUARD_STEP = 1
     \<and> filter isGuard acts
         = map (\<lambda>c. GUARD (uniqueId c) (shield c))
               (filter (\<lambda>c. shield c \<noteq> None) (hand (players p (other (currentPlayerIndex p)))))
     \<and> filter isIntercept acts
         = List.map_filter (interceptOption (board (players p (other (currentPlayerIndex p)))))
             [R1, V, R2]
     \<and> list_all (\<lambda>a. isGuard a \<or> isIntercept a \<or> a = PASS_GUARD_STEP) acts"
proof -
  let ?d = "players p (other (currentPlayerIndex p))"
  let ?gs = "concat (map guardFromHand (hand ?d))"
  let ?is = "concat (map (interceptFrom (board ?d)) (filter (is_interceptor (board ?d)) frontRow))"
  have acts: "getPossibleActions host p = Inr (?gs @ ?is @ [PASS_GUARD_STEP])"
    using assms by (simp add: getPossibleActions_def getGuardActions_def Let_def)
  have 1: "count_list (?gs @ ?is @ [PASS_GUARD_STEP]) PASS_GUARD_STEP = 1"
    by (simp add: guards_count_pass intercepts_count_pass)
  have 2: "filter isGuard (?gs @ ?is @ [PASS_GUARD_STEP])
        = map (\<lambda>c. GUARD (uniqueId c) (shield c)) (filter (\<lambda>c. shield c \<noteq> None) (hand ?d))"
    by (simp add: guards_filter_guard intercepts_filter_guard isGuard_def)
  have "filter isIntercept (?gs @ ?is @ [PASS_GUARD_STEP])
        = List.map_filter (interceptOption (board ?d)) frontRow"
    by (simp add: guards_filter_intercept intercepts_filter_intercept isIntercept_def)
  then have 3: "filter isIntercept (?gs @ ?is @ [PASS_GUARD_STEP])
        = List.map_filter (interceptOption (board ?d)) [R1, V, R2]"
    by (simp only: frontRow_def)
  have 4: "list_all (\<lambda>a. isGuard a \<or> isIntercept a \<or> a = PASS_GUARD_STEP)
             (?gs @ ?is @ [PASS_GUARD_STEP])"
    using list_all_weaken[OF guards_all,
            of "\<lambda>a. isGuard a \<or> isIntercept a \<or> a = PASS_GUARD_STEP" "hand ?d"]
          list_all_weaken[OF intercepts_all,
            of "\<lambda>a. isGuard a \<or> isIntercept a \<or> a = PASS_GUARD_STEP"
               "board ?d" "filter (is_interceptor (board ?d)) frontRow"]
    by simp
  from acts 1 2 3 4 show ?thesis by blast
qed

text \<open>
  C9 at a concrete guard step: one GUARD for the card with a shield (none for the order),
  one INTERCEPT for the standing interceptor on R1 (none for the resting one on R2), one
  pass.
\<close>

theorem C9_guard_actions_witness:
  "phase guardState = ''guard''
   \<and> (\<exists>acts. getPossibleActions plainHost guardState = Inr acts
        \<and> count_list acts PASS_GUARD_STEP = 1
        \<and> filter isGuard acts = [GUARD ''u1'' (Some 0)]
        \<and> filter isIntercept acts = [INTERCEPT ''u6'' (Some 0) ''R1'']
        \<and> list_all (\<lambda>a. isGuard a \<or> isIntercept a \<or> a = PASS_GUARD_STEP) acts)"
proof -
  have ph: "phase guardState = ''guard''"
    by (simp add: guardState_def set_player_def newParty_def)
  have h: "hand (players guardState (other (currentPlayerIndex guardState))) = [alpha, orderCard]"
    by (simp add: guardState_def set_player_def newParty_def)
  have g: "filter (\<lambda>c. shield c \<noteq> None) [alpha, orderCard] = [alpha]"
    by (simp add: alpha_def orderCard_def newCard_def)
  have i: "List.map_filter (interceptOption (board (players guardState (other (currentPlayerIndex guardState)))))
             [R1, V, R2] = [INTERCEPT ''u6'' (Some 0) ''R1'']"
    by (simp add: guardState_def set_player_def newParty_def List.map_filter_simps interceptOption_def
          emptyBoard_def interceptor_def newCard_def)
  from C9_guard_actions[OF ph, of plainHost] ph show ?thesis
    unfolding h g i by (simp add: alpha_def newCard_def)
qed

text \<open>
  C10. A CALL action that the generator returns in the main phase of a state \<open>p\<close> has no
  \<^verbatim>\<open>cardIndexInHand\<close>. Applied to any state \<open>s\<close> whose active player holds at least
  one card (the state that generated it or another one, such as a determinized copy), it
  passes the bounds check of \<^verbatim>\<open>applyCall\<close> (a new state comes back, not the input),
  the hand loses its first card, and that card is on the target circle, whatever card the
  action's \<^verbatim>\<open>cardInstanceId\<close> names.
\<close>

theorem C10_generated_call_takes_first_hand_card:
  assumes "phase p = ''main''"
    and "getPossibleActions host p = Inr acts"
    and "CALL i uid tag \<in> set acts"
    and "hand (players s (currentPlayerIndex s)) = c # cs"
  shows "i = None
     \<and> (\<exists>circle q. getCircle tag = Inr circle
           \<and> applyAction host' rnd s (CALL i uid tag) = RetClone q
           \<and> hand (players q (currentPlayerIndex s)) = cs
           \<and> board (players q (currentPlayerIndex s)) circle = Some c)"
proof -
  let ?pl = "players p (currentPlayerIndex p)"
  from assms(1,2) obtain actActions where
    a: "getActActions host p ?pl = Inr actActions"
    and acts: "acts = getCallActions p ?pl @ getMoveActions p ?pl @ actActions @ [PASS_MAIN_PHASE]"
    by (auto simp: getPossibleActions_def getMainPhaseActions_def Let_def split: sum.splits)
  from assms(3) acts act_actions_no_call[OF a] move_actions_no_call
  have "CALL i uid tag \<in> set (getCallActions p ?pl)" by auto
  from call_actions_shape[OF this] obtain circle where i: "i = None" and g: "getCircle tag = Inr circle"
    by blast
  have "\<exists>q. applyAction host' rnd s (CALL None uid tag) = RetClone q
         \<and> hand (players q (currentPlayerIndex s)) = cs
         \<and> board (players q (currentPlayerIndex s)) circle = Some c"
    using g assms(4)
    by (simp add: lift_def ret_def applyCall_def cloneDeep_def Let_def nth_opt_def set_player_def
          split: option.splits)
  with i g show ?thesis by blast
qed

text \<open>
  C10 at concrete states: the generated CALL that names \<open>beta\<close>, the second card of the
  hand, puts \<open>alpha\<close>, the first, on R1 and leaves \<open>beta\<close> in the hand; applied to
  another state, whose active player holds \<open>alpha\<close> only, the same action puts \<open>alpha\<close>
  on R1 and empties the hand.
\<close>

theorem C10_generated_call_takes_first_hand_card_witness:
  "phase mainState = ''main''
   \<and> CALL None ''u2'' ''R1'' \<in> set (getCallActions mainState (players mainState P0))
   \<and> hand (players mainState P0) = [alpha, beta]
   \<and> (\<exists>circle q. getCircle ''R1'' = Inr circle
         \<and> applyAction plainHost (\<lambda>i. 0) mainState (CALL None ''u2'' ''R1'') = RetClone q
         \<and> hand (players q P0) = [beta]
         \<and> board (players q P0) circle = Some alpha)
   \<and> hand (players callState P0) = [alpha]
   \<and> (\<exists>circle q. getCircle ''R1'' = Inr circle
         \<and> applyAction plainHost (\<lambda>i. 0) callState (CALL None ''u2'' ''R1'') = RetClone q
         \<and> hand (players q P0) = []
         \<and> board (players q P0) circle = Some alpha)"
proof -
  have ph: "phase mainState = ''main''"
    by (simp add: mainState_def set_player_def newParty_def)
  have cp: "currentPlayerIndex mainState = P0"
    by (simp add: mainState_def set_player_def newParty_def)
  have cp': "currentPlayerIndex callState = P0"
    by (simp add: callState_def set_player_def newParty_def)
  have h: "hand (players mainState (currentPlayerIndex mainState)) = alpha # [beta]"
    by (simp add: mainState_def set_player_def newParty_def)
  have h': "hand (players callState (currentPlayerIndex callState)) = alpha # []"
    by (simp add: callState_def set_player_def newParty_def)
  have mem: "CALL None ''u2'' ''R1'' \<in> set (getCallActions mainState (players mainState P0))"
    by (simp add: getCallActions_def mainState_def set_player_def newParty_def newPlayer_def
          emptyBoard_def defender_def alpha_def beta_def newCard_def frontRow_def backRow_def)
  have acts: "getPossibleActions plainHost mainState
        = Inr (getCallActions mainState (players mainState P0) @ [PASS_MAIN_PHASE])"
    by (simp add: getPossibleActions_def getMainPhaseActions_def getMoveActions_def getActActions_def
          ph cp units_of_def mainState_def set_player_def newParty_def newPlayer_def emptyBoard_def
          frontRow_def backRow_def defender_def newCard_def Let_def)
  have mem': "CALL None ''u2'' ''R1'' \<in> set (getCallActions mainState (players mainState P0) @ [PASS_MAIN_PHASE])"
    using mem by simp
  from C10_generated_call_takes_first_hand_card[OF ph acts mem' h, of plainHost "\<lambda>i. 0"]
  have 1: "\<exists>circle q. getCircle ''R1'' = Inr circle
         \<and> applyAction plainHost (\<lambda>i. 0) mainState (CALL None ''u2'' ''R1'') = RetClone q
         \<and> hand (players q P0) = [beta]
         \<and> board (players q P0) circle = Some alpha"
    by (simp add: cp)
  from C10_generated_call_takes_first_hand_card[OF ph acts mem' h', of plainHost "\<lambda>i. 0"]
  have 2: "\<exists>circle q. getCircle ''R1'' = Inr circle
         \<and> applyAction plainHost (\<lambda>i. 0) callState (CALL None ''u2'' ''R1'') = RetClone q
         \<and> hand (players q P0) = []
         \<and> board (players q P0) circle = Some alpha"
    by (simp add: cp')
  from ph mem h h' 1 2 show ?thesis by (simp add: cp cp')
qed

end
